theory Spec2Isabelle
  imports Main "HOL-Library.Monad_Syntax"
begin

text \<open>
  The Nutrient Document Engine MCP server (\<^verbatim>\<open>src/nutrient-document-engine/index.ts\<close>)
  answers three kinds of request with calls to a document backend: listing resources,
  reading a resource and calling a tool. Each handler is a function from the request and
  the world (the state of the backend, the calls issued so far, the lines written to the
  error stream) to an outcome and the new world; a thrown \<^verbatim>\<open>Error\<close> is the outcome
  \<open>Inl\<close>. Inside a \<^verbatim>\<open>try\<close> block an exception is \<open>None\<close>, and the \<^verbatim>\<open>catch\<close> turns it
  into what the handler throws or returns. The start of the process and the fixed tool
  catalogue make no backend call and are left out.
\<close>

section \<open>JavaScript values as they reach the handlers\<close>

text \<open>
  The handlers of \<^verbatim>\<open>index.ts\<close> receive request parameters and backend response
  bodies typed \<^verbatim>\<open>any\<close>: values parsed from JSON, plus \<^verbatim>\<open>undefined\<close> for a property
  that is not there. \<open>JObj\<close> lists the own properties of a parsed object, each key
  once.

  A number is carried by the characters that \<^verbatim>\<open>String(n)\<close> prints for it: \<^verbatim>\<open>42\<close>, \<^verbatim>\<open>-7\<close>,
  \<^verbatim>\<open>1.5\<close>, \<^verbatim>\<open>1e+21\<close>, \<^verbatim>\<open>18446744073709552000\<close> for the double nearest to \<open>2\<^sup>6\<^sup>4\<close>. Two
  numbers differ exactly when their printed forms differ, up to the sign of zero, which
  nothing in the handlers observes. A template literal puts these very characters into
  the string, so rounding and the exponent form of large and small numbers are part of
  the value and not computed here.
\<close>

datatype json =
    JUndefined
  | JNull
  | JBool bool
  | JNum string
  | JStr string
  | JArr "json list"
  | JObj "(string \<times> json) list"

text \<open>The truthiness test behind \<^verbatim>\<open>if (v)\<close> and \<^verbatim>\<open>v || w\<close>.\<close>

fun js_truthy :: "json \<Rightarrow> bool" where
  "js_truthy JUndefined = False"
| "js_truthy JNull = False"
| "js_truthy (JBool b) = b"
| "js_truthy (JNum n) = (n \<noteq> ''0'' \<and> n \<noteq> ''NaN'')"
| "js_truthy (JStr s) = (s \<noteq> [])"
| "js_truthy (JArr xs) = True"
| "js_truthy (JObj kvs) = True"

text \<open>Reading an own property of an object: a key that is not there reads \<^verbatim>\<open>undefined\<close>.\<close>

definition obj_get :: "(string \<times> json) list \<Rightarrow> string \<Rightarrow> json" where
  "obj_get kvs k = (case map_of kvs k of None \<Rightarrow> JUndefined | Some v \<Rightarrow> v)"

text \<open>
  The property access \<^verbatim>\<open>v.k\<close>. On \<^verbatim>\<open>undefined\<close> and \<^verbatim>\<open>null\<close> it throws a TypeError
  (\<open>None\<close>). On every other value it reads the property; the keys the handlers read
  (\<^verbatim>\<open>data\<close>, \<^verbatim>\<open>meta\<close>, \<^verbatim>\<open>pagination\<close>, \<^verbatim>\<open>next_page\<close>, \<^verbatim>\<open>id\<close>, \<^verbatim>\<open>attributes\<close>, \<^verbatim>\<open>title\<close>,
  \<^verbatim>\<open>page_count\<close>, \<^verbatim>\<open>name\<close>, \<^verbatim>\<open>visible\<close>, \<^verbatim>\<open>type\<close>, \<^verbatim>\<open>page\<close>, \<^verbatim>\<open>content\<close>) are on no
  prototype, so strings, numbers, booleans and arrays read \<^verbatim>\<open>undefined\<close> there.
\<close>

fun js_get :: "json \<Rightarrow> string \<Rightarrow> json option" where
  "js_get JUndefined k = None"
| "js_get JNull k = None"
| "js_get (JObj kvs) k = Some (obj_get kvs k)"
| "js_get v k = Some JUndefined"

text \<open>
  The decimal digits of a natural number. They are what \<^verbatim>\<open>String(n)\<close> prints for an
  integer below \<open>10\<^sup>2\<^sup>1\<close>; the handlers need them for the length of an array, which is
  below \<open>2\<^sup>3\<^sup>2\<close>.
\<close>

definition digit_char :: "nat \<Rightarrow> char" where
  "digit_char d = ''0123456789'' ! (d mod 10)"

function string_of_nat :: "nat \<Rightarrow> string" where
  "string_of_nat n =
     (if n < 10 then [digit_char n] else string_of_nat (n div 10) @ [digit_char (n mod 10)])"
  by pat_completeness auto
termination
  by (relation "measure (\<lambda>n. n)") auto

declare string_of_nat.simps [simp del]

text \<open>
  The string conversion of a template literal \<^verbatim>\<open>`${v}`\<close>. A number gives its printed
  form. An array joins the conversions
  of its elements with commas, \<^verbatim>\<open>undefined\<close> and \<^verbatim>\<open>null\<close> elements giving the empty
  string. A parsed object prints as \<^verbatim>\<open>[object Object]\<close> through the inherited
  \<^verbatim>\<open>toString\<close>; an own property of that name shadows it with a value that cannot be
  called, and the conversion throws a TypeError (\<open>None\<close>).
\<close>

fun js_to_string :: "json \<Rightarrow> string option"
  and js_join :: "json list \<Rightarrow> string option" where
  "js_to_string JUndefined = Some ''undefined''"
| "js_to_string JNull = Some ''null''"
| "js_to_string (JBool b) = Some (if b then ''true'' else ''false'')"
| "js_to_string (JNum n) = Some n"
| "js_to_string (JStr s) = Some s"
| "js_to_string (JArr xs) = js_join xs"
| "js_to_string (JObj kvs) =
     (if map_of kvs ''toString'' = None then Some ''[object Object]'' else None)"
| "js_join [] = Some []"
| "js_join (x # xs) =
     (case (if x = JUndefined \<or> x = JNull then Some [] else js_to_string x) of
        None \<Rightarrow> None
      | Some s \<Rightarrow>
          (if xs = [] then Some s
           else (case js_join xs of None \<Rightarrow> None | Some r \<Rightarrow> Some (s @ '','' @ r))))"

text \<open>
  \<^verbatim>\<open>v.map(f)\<close>: on an array it applies \<open>f\<close> to the elements in order, and an exception
  of \<open>f\<close> ends it; on anything else there is no callable \<^verbatim>\<open>map\<close> and it throws.
\<close>

fun js_map :: "json \<Rightarrow> (json \<Rightarrow> 'a option) \<Rightarrow> 'a list option" where
  "js_map (JArr xs) f = those (map f xs)"
| "js_map v f = None"

text \<open>
  \<^verbatim>\<open>s.replace(pat, rep)\<close> with a string pattern: the first occurrence of \<open>pat\<close> in \<open>s\<close>
  is replaced, and a string without one is returned as it is.
\<close>

fun js_replace :: "string \<Rightarrow> string \<Rightarrow> string \<Rightarrow> string" where
  "js_replace [] pat rep = (if pat = [] then rep else [])"
| "js_replace (c # cs) pat rep =
     (if take (length pat) (c # cs) = pat then rep @ drop (length pat) (c # cs)
      else c # js_replace cs pat rep)"

text \<open>\<^verbatim>\<open>ls.join("\n")\<close> on an array of strings.\<close>

definition js_lines :: "string list \<Rightarrow> string" where
  "js_lines ls = concat (case ls of [] \<Rightarrow> [] | l # rest \<Rightarrow> l # map (\<lambda>x. CHR 0x0A # x) rest)"

section \<open>The backend behind the HTTP client\<close>

text \<open>
  A request of the \<^verbatim>\<open>api\<close> client: \<open>Get path params\<close> for \<^verbatim>\<open>api.get(path, {params})\<close>
  (\<open>JUndefined\<close> when the call passes no configuration) and \<open>Post path body\<close> for
  \<^verbatim>\<open>api.post(path, body)\<close>. The backend answers from its own state: \<open>Some body\<close> is the
  \<^verbatim>\<open>data\<close> of a response, \<open>None\<close> a rejected call (no connection, an error status).
\<close>

datatype http_request = Get string json | Post string json

type_synonym 's backend = "'s \<Rightarrow> http_request \<Rightarrow> json option \<times> 's"

record 's world =
  be_state :: 's
  calls :: "http_request list"
  stderr :: "string list"

definition api_request :: "'s backend \<Rightarrow> http_request \<Rightarrow> 's world \<Rightarrow> json option \<times> 's world" where
  "api_request be req w =
     (case be (be_state w) req of
        (r, s') \<Rightarrow> (r, w\<lparr>be_state := s', calls := calls w @ [req]\<rparr>))"

definition console_error :: "string \<Rightarrow> 's world \<Rightarrow> 's world" where
  "console_error msg w = w\<lparr>stderr := stderr w @ [msg]\<rparr>"

datatype error = Error string

section \<open>Listing documents\<close>

definition uri_prefix :: string where
  "uri_prefix = ''nutrient-document-engine:///''"

record resource =
  res_uri :: string
  res_mimeType :: string
  res_name :: json

record list_result =
  resources :: "resource list"
  nextCursor :: json

text \<open>The expression \<^verbatim>\<open>doc.attributes.title || `Document ${doc.id}`\<close> of both handlers.\<close>

definition display_name :: "json \<Rightarrow> json option" where
  "display_name doc = do {
     attributes \<leftarrow> js_get doc ''attributes'';
     title \<leftarrow> js_get attributes ''title'';
     if js_truthy title then Some title
     else do {
       id \<leftarrow> js_get doc ''id'';
       s \<leftarrow> js_to_string id;
       Some (JStr (''Document '' @ s))
     }
   }"

definition document_resource :: "json \<Rightarrow> resource option" where
  "document_resource doc = do {
     id \<leftarrow> js_get doc ''id'';
     s \<leftarrow> js_to_string id;
     name \<leftarrow> display_name doc;
     Some \<lparr>res_uri = uri_prefix @ s, res_mimeType = ''application/pdf'', res_name = name\<rparr>
   }"

text \<open>What the handler builds from the body of the backend's answer.\<close>

definition list_response :: "json \<Rightarrow> list_result option" where
  "list_response body = do {
     documents \<leftarrow> js_get body ''data'';
     rs \<leftarrow> js_map documents document_resource;
     meta \<leftarrow> js_get body ''meta'';
     pagination \<leftarrow> js_get meta ''pagination'';
     next_page \<leftarrow> js_get pagination ''next_page'';
     Some \<lparr>resources = rs,
           nextCursor = (if js_truthy next_page then next_page else JUndefined)\<rparr>
   }"

text \<open>The \<^verbatim>\<open>params\<close> object: \<^verbatim>\<open>page\<close> is set under \<^verbatim>\<open>if (request.params?.cursor)\<close>.\<close>

definition list_params :: "string option \<Rightarrow> json" where
  "list_params cursor =
     (case cursor of
        None \<Rightarrow> JObj []
      | Some c \<Rightarrow> if c \<noteq> [] then JObj [(''page'', JStr c)] else JObj [])"

definition list_try :: "'s backend \<Rightarrow> string option \<Rightarrow> 's world \<Rightarrow> list_result option \<times> 's world" where
  "list_try be cursor w =
     (case api_request be (Get ''/api/documents'' (list_params cursor)) w of
        (None, w1) \<Rightarrow> (None, w1)
      | (Some body, w1) \<Rightarrow> (list_response body, w1))"

definition list_resources ::
  "'s backend \<Rightarrow> string option \<Rightarrow> 's world \<Rightarrow> (error + list_result) \<times> 's world" where
  "list_resources be cursor w =
     (case list_try be cursor w of
        (None, w1) \<Rightarrow>
          (Inl (Error ''Failed to list documents''), console_error ''Error listing documents:'' w1)
      | (Some r, w1) \<Rightarrow> (Inr r, w1))"

section \<open>Reading a document\<close>

record read_content =
  rc_uri :: string
  rc_mimeType :: string
  rc_text :: string

record read_result =
  contents :: "read_content list"

definition layer_info :: "json \<Rightarrow> json option" where
  "layer_info layer = do {
     id \<leftarrow> js_get layer ''id'';
     attributes \<leftarrow> js_get layer ''attributes'';
     name \<leftarrow> js_get attributes ''name'';
     visible \<leftarrow> js_get attributes ''visible'';
     Some (JObj [(''id'', id), (''name'', name), (''visible'', visible)])
   }"

definition annotation_info :: "json \<Rightarrow> json option" where
  "annotation_info annotation = do {
     id \<leftarrow> js_get annotation ''id'';
     attributes \<leftarrow> js_get annotation ''attributes'';
     type \<leftarrow> js_get attributes ''type'';
     page \<leftarrow> js_get attributes ''page'';
     content \<leftarrow> js_get attributes ''content'';
     Some (JObj [(''id'', id), (''type'', type), (''page'', page), (''content'', content)])
   }"

definition document_info :: "json \<Rightarrow> json \<Rightarrow> json \<Rightarrow> json option" where
  "document_info document layers annotations = do {
     id \<leftarrow> js_get document ''id'';
     attributes \<leftarrow> js_get document ''attributes'';
     title \<leftarrow> js_get attributes ''title'';
     page_count \<leftarrow> js_get attributes ''page_count'';
     ls \<leftarrow> js_map layers layer_info;
     as \<leftarrow> js_map annotations annotation_info;
     Some (JObj [(''id'', id), (''title'', title), (''pageCount'', page_count),
                 (''layers'', JArr ls), (''annotations'', JArr as)])
   }"

definition document_id :: "string \<Rightarrow> string" where
  "document_id uri = js_replace uri uri_prefix []"

text \<open>
  The body of the \<^verbatim>\<open>try\<close> block: three awaited calls, each followed by the read of
  \<^verbatim>\<open>.data.data\<close> of its response, then the compilation of the document information.
  \<open>None\<close> is an exception on the way.
\<close>

definition read_try :: "'s backend \<Rightarrow> string \<Rightarrow> 's world \<Rightarrow> json option \<times> 's world" where
  "read_try be uri w =
     (let documentId = document_id uri in
      case api_request be (Get (''/api/documents/'' @ documentId) JUndefined) w of
        (None, w1) \<Rightarrow> (None, w1)
      | (Some docResponse, w1) \<Rightarrow>
      (case js_get docResponse ''data'' of
        None \<Rightarrow> (None, w1)
      | Some document \<Rightarrow>
      (case api_request be (Get (''/api/documents/'' @ documentId @ ''/layers'') JUndefined) w1 of
        (None, w2) \<Rightarrow> (None, w2)
      | (Some layersResponse, w2) \<Rightarrow>
      (case js_get layersResponse ''data'' of
        None \<Rightarrow> (None, w2)
      | Some layers \<Rightarrow>
      (case api_request be (Get (''/api/documents/'' @ documentId @ ''/annotations'') JUndefined) w2 of
        (None, w3) \<Rightarrow> (None, w3)
      | (Some annotationsResponse, w3) \<Rightarrow>
      (case js_get annotationsResponse ''data'' of
        None \<Rightarrow> (None, w3)
      | Some annotations \<Rightarrow> (document_info document layers annotations, w3)))))))"

text \<open>
  The handler. \<open>stringify\<close> stands for \<^verbatim>\<open>JSON.stringify(v, null, 2)\<close> of the runtime,
  which the handler applies to the compiled object.
\<close>

definition read_resource ::
  "'s backend \<Rightarrow> (json \<Rightarrow> string) \<Rightarrow> string \<Rightarrow> 's world \<Rightarrow> (error + read_result) \<times> 's world" where
  "read_resource be stringify uri w =
     (case read_try be uri w of
        (None, w1) \<Rightarrow>
          (Inl (Error ''Failed to read document''), console_error ''Error reading document:'' w1)
      | (Some documentInfo, w1) \<Rightarrow>
          (Inr \<lparr>contents = [\<lparr>rc_uri = uri, rc_mimeType = ''application/json'',
                              rc_text = stringify documentInfo\<rparr>]\<rparr>, w1))"

section \<open>Calling a tool\<close>

record tool_content =
  tc_type :: string
  tc_text :: string

record tool_result =
  result_content :: "tool_content list"
  isError :: bool

text \<open>One line of the search result, the callback of \<^verbatim>\<open>documents.map\<close>.\<close>

definition document_line :: "json \<Rightarrow> string option" where
  "document_line doc = do {
     shown \<leftarrow> display_name doc;
     t \<leftarrow> js_to_string shown;
     id \<leftarrow> js_get doc ''id'';
     s \<leftarrow> js_to_string id;
     Some (t @ '' (ID: '' @ s @ '')'')
   }"

text \<open>
  \<^verbatim>\<open>v.length\<close>: the number of elements of an array, of characters of a string, an own
  property of an object.
\<close>

fun js_length :: "json \<Rightarrow> json option" where
  "js_length JUndefined = None"
| "js_length JNull = None"
| "js_length (JArr xs) = Some (JNum (string_of_nat (length xs)))"
| "js_length (JStr s) = Some (JNum (string_of_nat (length s)))"
| "js_length (JObj kvs) = Some (obj_get kvs ''length'')"
| "js_length v = Some JUndefined"

definition search_text :: "json \<Rightarrow> string option" where
  "search_text body = do {
     documents \<leftarrow> js_get body ''data'';
     documentList \<leftarrow> map_option js_lines (js_map documents document_line);
     n \<leftarrow> js_length documents;
     count \<leftarrow> js_to_string n;
     Some (''Found '' @ count @ '' documents:'' @ [CHR 0x0A] @ documentList)
   }"

definition search_request :: "(string \<times> json) list option \<Rightarrow> http_request" where
  "search_request arguments =
     (let query = (case arguments of None \<Rightarrow> JUndefined | Some args \<Rightarrow> obj_get args ''query'')
      in Get ''/api/documents'' (JObj [(''filter'', JObj [(''query'', query)])]))"

definition search_try ::
  "'s backend \<Rightarrow> (string \<times> json) list option \<Rightarrow> 's world \<Rightarrow> string option \<times> 's world" where
  "search_try be arguments w =
     (case api_request be (search_request arguments) w of
        (None, w1) \<Rightarrow> (None, w1)
      | (Some body, w1) \<Rightarrow> (search_text body, w1))"

definition text_result :: "string \<Rightarrow> bool \<Rightarrow> tool_result" where
  "text_result t e = \<lparr>result_content = [\<lparr>tc_type = ''text'', tc_text = t\<rparr>], isError = e\<rparr>"

definition annotation_body :: "json \<Rightarrow> json \<Rightarrow> json \<Rightarrow> json" where
  "annotation_body type page content =
     JObj [(''data'', JObj [(''type'', JStr ''annotations''),
                            (''attributes'', JObj [(''type'', type), (''page'', page),
                                                   (''content'', content)])])]"

definition created_text :: "json \<Rightarrow> json \<Rightarrow> string option" where
  "created_text type body = do {
     annotation \<leftarrow> js_get body ''data'';
     t \<leftarrow> js_to_string type;
     id \<leftarrow> js_get annotation ''id'';
     s \<leftarrow> js_to_string id;
     Some (''Successfully created '' @ t @ '' annotation with ID: '' @ s)
   }"

text \<open>
  The \<^verbatim>\<open>try\<close> block of \<^verbatim>\<open>create_annotation\<close>: destructuring missing arguments throws,
  and so does a document id without a string conversion, both before any call.
\<close>

definition create_try ::
  "'s backend \<Rightarrow> (string \<times> json) list option \<Rightarrow> 's world \<Rightarrow> string option \<times> 's world" where
  "create_try be arguments w =
     (case arguments of
        None \<Rightarrow> (None, w)
      | Some args \<Rightarrow>
          (let documentId = obj_get args ''documentId'';
               type = obj_get args ''type'';
               page = obj_get args ''page'';
               content = obj_get args ''content''
           in case js_to_string documentId of
                None \<Rightarrow> (None, w)
              | Some d \<Rightarrow>
                  (case api_request be
                          (Post (''/api/documents/'' @ d @ ''/annotations'')
                                (annotation_body type page content)) w of
                     (None, w1) \<Rightarrow> (None, w1)
                   | (Some body, w1) \<Rightarrow> (created_text type body, w1))))"

definition call_tool ::
  "'s backend \<Rightarrow> string \<Rightarrow> (string \<times> json) list option \<Rightarrow> 's world
     \<Rightarrow> (error + tool_result) \<times> 's world" where
  "call_tool be name arguments w =
     (if name = ''search'' then
        (case search_try be arguments w of
           (Some t, w1) \<Rightarrow> (Inr (text_result t False), w1)
         | (None, w1) \<Rightarrow>
             (Inr (text_result ''Failed to search documents. Please try again.'' True),
              console_error ''Error searching documents:'' w1))
      else if name = ''create_annotation'' then
        (case create_try be arguments w of
           (Some t, w1) \<Rightarrow> (Inr (text_result t False), w1)
         | (None, w1) \<Rightarrow>
             (Inr (text_result
                     ''Failed to create annotation. Please check your inputs and try again.'' True),
              console_error ''Error creating annotation:'' w1))
      else (Inl (Error ''Tool not found''), w))"

section \<open>Requests, answers and sample inputs\<close>

text \<open>The three requests of a read, in the order of the source.\<close>

definition read_requests :: "string \<Rightarrow> http_request list" where
  "read_requests d =
     [Get (''/api/documents/'' @ d) JUndefined,
      Get (''/api/documents/'' @ d @ ''/layers'') JUndefined,
      Get (''/api/documents/'' @ d @ ''/annotations'') JUndefined]"

text \<open>The answers of the backend to a sequence of requests sent one after the other.\<close>

fun responses :: "'s backend \<Rightarrow> 's \<Rightarrow> http_request list \<Rightarrow> json option list" where
  "responses be s [] = []"
| "responses be s (r # rs) = (case be s r of (a, s') \<Rightarrow> a # responses be s' rs)"

text \<open>A backend that rejects every call, and one that holds two documents.\<close>

definition backend_down :: "unit backend" where
  "backend_down s req = (None, s)"

definition invoice :: json where
  "invoice = JObj [(''id'', JStr ''abc123''),
                   (''attributes'', JObj [(''title'', JStr ''Invoice''), (''page_count'', JNum ''2'')])]"

definition untitled :: json where
  "untitled = JObj [(''id'', JStr ''d7''),
                    (''attributes'', JObj [(''title'', JNull), (''page_count'', JNum ''1'')])]"

definition documents_body :: json where
  "documents_body =
     JObj [(''data'', JArr [invoice, untitled]),
           (''meta'', JObj [(''pagination'', JObj [(''next_page'', JStr ''2'')])])]"

definition layers_body :: json where
  "layers_body =
     JObj [(''data'', JArr [JObj [(''id'', JStr ''l1''),
                                   (''attributes'', JObj [(''name'', JStr ''base''),
                                                          (''visible'', JBool True)])]])]"

definition annotations_body :: json where
  "annotations_body = JObj [(''data'', JArr [])]"

definition created_body :: json where
  "created_body = JObj [(''data'', JObj [(''id'', JStr ''ann42'')])]"

definition demo_backend :: "unit backend" where
  "demo_backend s req =
     (case req of
        Get p params \<Rightarrow>
          (if p = ''/api/documents'' then Some documents_body
           else if p = ''/api/documents/abc123'' then Some (JObj [(''data'', invoice)])
           else if p = ''/api/documents/abc123/layers'' then Some layers_body
           else if p = ''/api/documents/abc123/annotations'' then Some annotations_body
           else None)
      | Post p body \<Rightarrow>
          (if p = ''/api/documents/abc123/annotations'' then Some created_body else None),
      s)"

definition world0 :: "unit world" where
  "world0 = \<lparr>be_state = (), calls = [], stderr = []\<rparr>"

text \<open>A stand-in for the runtime's serialiser in the examples: it prints the keys only.\<close>

definition keys_only :: "json \<Rightarrow> string" where
  "keys_only v = (case v of JObj kvs \<Rightarrow> concat (map (\<lambda>kv. fst kv @ '';'') kvs) | _ \<Rightarrow> [])"

definition note_arguments :: "(string \<times> json) list" where
  "note_arguments =
     [(''documentId'', JStr ''abc123''), (''type'', JStr ''note''), (''page'', JNum ''1''),
      (''content'', JObj [(''text'', JStr ''hi'')])]"

definition odd_arguments :: "(string \<times> json) list" where
  "odd_arguments =
     [(''documentId'', JStr ''abc123''), (''type'', JStr ''scribble''), (''page'', JNum ''0''),
      (''content'', JNull)]"

text \<open>The fixed message of a failed tool call.\<close>

definition failure_text :: "string \<Rightarrow> string" where
  "failure_text name =
     (if name = ''search'' then ''Failed to search documents. Please try again.''
      else ''Failed to create annotation. Please check your inputs and try again.'')"

text \<open>The title of a document and the printed form of its id, where they can be read.\<close>

definition doc_title :: "json \<Rightarrow> json option" where
  "doc_title doc = do { attributes \<leftarrow> js_get doc ''attributes''; js_get attributes ''title'' }"

definition doc_id :: "json \<Rightarrow> string option" where
  "doc_id doc = do { id \<leftarrow> js_get doc ''id''; js_to_string id }"

text \<open>An object with an own \<^verbatim>\<open>toString\<close> property, and arguments that carry it.\<close>

definition shadowed :: json where
  "shadowed = JObj [(''toString'', JNum ''1'')]"

definition shadowed_type_arguments :: "(string \<times> json) list" where
  "shadowed_type_arguments =
     [(''documentId'', JStr ''abc123''), (''type'', shadowed), (''page'', JNum ''1''),
      (''content'', JNull)]"

definition shadowed_id_arguments :: "(string \<times> json) list" where
  "shadowed_id_arguments =
     [(''documentId'', shadowed), (''type'', JStr ''note''), (''page'', JNum ''1''),
      (''content'', JNull)]"

text \<open>A backend that answers as \<open>demo_backend\<close> a given number of times, then rejects.\<close>

definition flaky_backend :: "nat backend" where
  "flaky_backend n req = (if n = 0 then (None, 0) else (fst (demo_backend () req), n - 1))"

definition flaky_world :: "nat \<Rightarrow> nat world" where
  "flaky_world n = \<lparr>be_state = n, calls = [], stderr = []\<rparr>"

text \<open>A backend whose listing reports no further page.\<close>

definition last_page_backend :: "unit backend" where
  "last_page_backend s req =
     (Some (JObj [(''data'', JArr [untitled]),
                  (''meta'', JObj [(''pagination'', JObj [(''next_page'', JNull)])])]), s)"

text \<open>The listing that \<open>demo_backend\<close> gives rise to.\<close>

definition demo_listing :: list_result where
  "demo_listing =
     \<lparr>resources =
        [\<lparr>res_uri = ''nutrient-document-engine:///abc123'', res_mimeType = ''application/pdf'',
           res_name = JStr ''Invoice''\<rparr>,
         \<lparr>res_uri = ''nutrient-document-engine:///d7'', res_mimeType = ''application/pdf'',
           res_name = JStr ''Document d7''\<rparr>],
      nextCursor = JStr ''2''\<rparr>"

text \<open>
  A call of a read has failed when it was rejected, and when it was answered with a body
  whose \<^verbatim>\<open>data\<close> cannot be read (\<^verbatim>\<open>null\<close> or nothing in place of the body).
\<close>

definition call_failed :: "json option \<Rightarrow> bool" where
  "call_failed a = (case a of None \<Rightarrow> True | Some body \<Rightarrow> js_get body ''data'' = None)"

text \<open>A backend that answers every call with the body \<^verbatim>\<open>null\<close>.\<close>

definition null_backend :: "unit backend" where
  "null_backend s req = (Some JNull, s)"

text \<open>A backend that rejects the listing of documents and answers the rest as \<open>demo_backend\<close>.\<close>

definition listing_down_backend :: "unit backend" where
  "listing_down_backend s req =
     (case req of
        Get p params \<Rightarrow> if p = ''/api/documents'' then (None, s) else demo_backend s req
      | Post p body \<Rightarrow> demo_backend s req)"

text \<open>Arguments that name a document the sample backend does not hold.\<close>

definition unknown_document_arguments :: "(string \<times> json) list" where
  "unknown_document_arguments =
     [(''documentId'', JStr ''nope''), (''type'', JStr ''note''), (''page'', JNum ''1''),
      (''content'', JObj [(''text'', JStr ''hi'')])]"

text \<open>Arguments outside the declared schema: a number as type, a string as page.\<close>

definition untyped_arguments :: "(string \<times> json) list" where
  "untyped_arguments =
     [(''documentId'', JStr ''abc123''), (''type'', JNum ''5''), (''page'', JStr ''first''),
      (''content'', JNum ''1.5'')]"

text \<open>A backend that gives every new annotation the id \<open>10\<^sup>2\<^sup>1\<close>, a number.\<close>

definition big_id_backend :: "unit backend" where
  "big_id_backend s req = (Some (JObj [(''data'', JObj [(''id'', JNum ''1e+21'')])]), s)"

text \<open>
  Two more documents: one without a title property, and one with the empty string as
  title and the number \<open>2\<^sup>6\<^sup>4\<close> as id. A backend that lists the four sample documents
  under a given pagination object.
\<close>

definition no_title :: json where
  "no_title = JObj [(''id'', JStr ''n1''), (''attributes'', JObj [(''page_count'', JNum ''3'')])]"

definition empty_title :: json where
  "empty_title = JObj [(''id'', JNum ''18446744073709552000''),
                       (''attributes'', JObj [(''title'', JStr [])])]"

definition listing_backend :: "json \<Rightarrow> unit backend" where
  "listing_backend pagination s req =
     (Some (JObj [(''data'', JArr [invoice, untitled, no_title, empty_title]),
                  (''meta'', JObj [(''pagination'', pagination)])]), s)"



text \<open>The resources that the handler builds from the four sample documents.\<close>

definition four_resources :: "resource list" where
  "four_resources =
     [\<lparr>res_uri = ''nutrient-document-engine:///abc123'', res_mimeType = ''application/pdf'',
        res_name = JStr ''Invoice''\<rparr>,
      \<lparr>res_uri = ''nutrient-document-engine:///d7'', res_mimeType = ''application/pdf'',
        res_name = JStr ''Document d7''\<rparr>,
      \<lparr>res_uri = ''nutrient-document-engine:///n1'', res_mimeType = ''application/pdf'',
        res_name = JStr ''Document n1''\<rparr>,
      \<lparr>res_uri = ''nutrient-document-engine:///18446744073709552000'',
        res_mimeType = ''application/pdf'',
        res_name = JStr ''Document 18446744073709552000''\<rparr>]"

section \<open>Calls and the log\<close>

lemma api_request_calls: "calls (snd (api_request be req w)) = calls w @ [req]"
  by (simp add: api_request_def split: prod.splits)

lemma api_request_fst: "fst (api_request be req w) = fst (be (be_state w) req)"
  by (simp add: api_request_def split: prod.splits)

lemma console_error_calls: "calls (console_error m w) = calls w"
  by (simp add: console_error_def)

lemma search_try_calls:
  "calls (snd (search_try be arguments w)) = calls w @ [search_request arguments]"
  by (simp add: search_try_def api_request_def split: prod.splits option.splits)

lemma call_tool_search_calls:
  "calls (snd (call_tool be ''search'' arguments w)) = calls w @ [search_request arguments]"
  using search_try_calls [of be arguments w]
  by (cases "search_try be arguments w")
     (auto simp: call_tool_def console_error_calls split: option.splits)

section \<open>Tool dispatch\<close>

text \<open>
  C6: a call-tool request whose name is neither \<^verbatim>\<open>search\<close> nor \<^verbatim>\<open>create_annotation\<close>
  throws the error \<^verbatim>\<open>Tool not found\<close>; it returns no flagged result, and the world is
  unchanged, so no backend call was made and nothing was logged.
\<close>

theorem call_tool_unknown:
  "name \<noteq> ''search'' \<Longrightarrow> name \<noteq> ''create_annotation'' \<Longrightarrow>
   call_tool be name arguments w = (Inl (Error ''Tool not found''), w)"
  by (simp add: call_tool_def)

theorem call_tool_unknown_witness:
  "''unknown_tool'' \<noteq> ''search'' \<and> ''unknown_tool'' \<noteq> ''create_annotation'' \<and>
   call_tool demo_backend ''unknown_tool'' (Some []) world0 =
     (Inl (Error ''Tool not found''), world0) \<and>
   calls world0 = []"
proof -
  have a: "''unknown_tool'' \<noteq> ''search''" by simp
  have b: "''unknown_tool'' \<noteq> ''create_annotation''" by simp
  show ?thesis using a b call_tool_unknown [OF a b, of demo_backend "Some []" world0]
    by (simp add: world0_def)
qed

text \<open>
  C9: \<^verbatim>\<open>search\<close> checks nothing locally. Without an arguments object, and with one
  that has no \<^verbatim>\<open>query\<close>, the listing call is issued with \<^verbatim>\<open>filter.query\<close> undefined;
  with any arguments object the one call carries whatever value \<^verbatim>\<open>query\<close> has.
\<close>

theorem search_no_validation:
  "calls (snd (call_tool be ''search'' None w)) =
     calls w @ [Get ''/api/documents'' (JObj [(''filter'', JObj [(''query'', JUndefined)])])] \<and>
   (map_of args ''query'' = None \<longrightarrow>
      calls (snd (call_tool be ''search'' (Some args) w)) =
        calls w @ [Get ''/api/documents'' (JObj [(''filter'', JObj [(''query'', JUndefined)])])]) \<and>
   calls (snd (call_tool be ''search'' (Some args) w)) =
     calls w @ [Get ''/api/documents'' (JObj [(''filter'', JObj [(''query'', obj_get args ''query'')])])]"
  by (simp add: call_tool_search_calls search_request_def obj_get_def)

theorem search_no_validation_witness:
  "map_of [(''limit'', JNum ''5'')] ''query'' = None \<and>
   calls (snd (call_tool demo_backend ''search'' None world0)) =
     [Get ''/api/documents'' (JObj [(''filter'', JObj [(''query'', JUndefined)])])] \<and>
   calls (snd (call_tool demo_backend ''search'' (Some [(''limit'', JNum ''5'')]) world0)) =
     [Get ''/api/documents'' (JObj [(''filter'', JObj [(''query'', JUndefined)])])]"
  using search_no_validation [of demo_backend world0 "[(''limit'', JNum ''5'')]"]
  by (simp add: world0_def)

lemma isError_text_result: "isError (text_result t e) = e"
  by (simp add: text_result_def)

lemma api_request_eq:
  "api_request be req w =
     (fst (be (be_state w) req),
      w\<lparr>be_state := snd (be (be_state w) req), calls := calls w @ [req]\<rparr>)"
  by (simp add: api_request_def case_prod_beta)

lemma search_try_fst:
  "fst (search_try be arguments w) =
     (case fst (be (be_state w) (search_request arguments)) of
        None \<Rightarrow> None | Some body \<Rightarrow> search_text body)"
  by (simp add: search_try_def api_request_eq split: option.splits)

lemma create_try_fst:
  "fst (create_try be arguments w) =
     (case arguments of
        None \<Rightarrow> None
      | Some args \<Rightarrow>
     (case js_to_string (obj_get args ''documentId'') of
        None \<Rightarrow> None
      | Some d \<Rightarrow>
     (case fst (be (be_state w)
                 (Post (''/api/documents/'' @ d @ ''/annotations'')
                       (annotation_body (obj_get args ''type'') (obj_get args ''page'')
                          (obj_get args ''content'')))) of
        None \<Rightarrow> None
      | Some body \<Rightarrow> created_text (obj_get args ''type'') body)))"
  by (simp add: create_try_def api_request_eq Let_def split: option.splits)

lemma create_try_calls:
  "js_to_string (obj_get args ''documentId'') = Some d \<Longrightarrow>
   calls (snd (create_try be (Some args) w)) =
     calls w @ [Post (''/api/documents/'' @ d @ ''/annotations'')
                  (annotation_body (obj_get args ''type'') (obj_get args ''page'')
                     (obj_get args ''content''))]"
  by (simp add: create_try_def api_request_eq Let_def split: option.splits)

lemma call_tool_search_fst:
  "fst (call_tool be ''search'' arguments w) =
     (case fst (search_try be arguments w) of
        None \<Rightarrow> Inr (text_result ''Failed to search documents. Please try again.'' True)
      | Some t \<Rightarrow> Inr (text_result t False))"
  by (cases "search_try be arguments w") (simp add: call_tool_def split: option.splits)

lemma call_tool_create_fst:
  "fst (call_tool be ''create_annotation'' arguments w) =
     (case fst (create_try be arguments w) of
        None \<Rightarrow> Inr (text_result
                    ''Failed to create annotation. Please check your inputs and try again.'' True)
      | Some t \<Rightarrow> Inr (text_result t False))"
  by (cases "create_try be arguments w") (simp add: call_tool_def split: option.splits)

lemma call_tool_create_calls:
  "calls (snd (call_tool be ''create_annotation'' arguments w)) =
   calls (snd (create_try be arguments w))"
  by (cases "create_try be arguments w")
     (simp add: call_tool_def console_error_def split: option.splits)

lemma named_tool_result:
  "(case x of None \<Rightarrow> Inr (text_result f True) | Some t \<Rightarrow> Inr (text_result t False)) =
     (Inr r :: error + tool_result) \<Longrightarrow> isError r \<Longrightarrow> r = text_result f True"
  by (cases x) (auto simp: isError_text_result)

lemma named_tool_returns:
  "\<exists>r. (case x of None \<Rightarrow> Inr (text_result f True) | Some t \<Rightarrow> Inr (text_result t False)) =
     (Inr r :: error + tool_result)"
  by (cases x) auto

lemma search_try_down:
  "\<forall>req. fst (be (be_state w) req) = None \<Longrightarrow> fst (search_try be arguments w) = None"
  by (simp add: search_try_fst)

lemma create_try_down:
  "\<forall>req. fst (be (be_state w) req) = None \<Longrightarrow> fst (create_try be arguments w) = None"
  by (simp add: create_try_fst split: option.splits)

lemma named_tool_fst:
  "name = ''search'' \<or> name = ''create_annotation'' \<Longrightarrow>
   fst (call_tool be name arguments w) =
     (case (if name = ''search'' then fst (search_try be arguments w)
            else fst (create_try be arguments w)) of
        None \<Rightarrow> Inr (text_result (failure_text name) True)
      | Some t \<Rightarrow> Inr (text_result t False))"
  by (erule disjE)
     (simp_all add: call_tool_search_fst call_tool_create_fst failure_text_def
        split: option.splits)

lemma tool_failure_general:
  "name = ''search'' \<or> name = ''create_annotation'' \<Longrightarrow>
   (\<exists>r. fst (call_tool be name arguments w) = Inr r) \<and>
   ((\<forall>req. fst (be (be_state w) req) = None) \<longrightarrow>
      fst (call_tool be name arguments w) = Inr (text_result (failure_text name) True)) \<and>
   (\<forall>r. fst (call_tool be name arguments w) = Inr r \<and> isError r \<longrightarrow>
      r = text_result (failure_text name) True)"
proof -
  assume n: "name = ''search'' \<or> name = ''create_annotation''"
  define x where "x = (if name = ''search'' then fst (search_try be arguments w)
            else fst (create_try be arguments w))"
  have r: "fst (call_tool be name arguments w) =
     (case x of None \<Rightarrow> Inr (text_result (failure_text name) True)
      | Some t \<Rightarrow> Inr (text_result t False))"
    unfolding x_def by (rule named_tool_fst [OF n])
  have a: "\<exists>r. fst (call_tool be name arguments w) = Inr r"
    unfolding r by (rule named_tool_returns)
  have b: "(\<forall>req. fst (be (be_state w) req) = None) \<longrightarrow>
      fst (call_tool be name arguments w) = Inr (text_result (failure_text name) True)"
  proof
    assume d: "\<forall>req. fst (be (be_state w) req) = None"
    have "x = None"
      unfolding x_def using d by (simp add: search_try_down create_try_down)
    then show "fst (call_tool be name arguments w) = Inr (text_result (failure_text name) True)"
      unfolding r by simp
  qed
  have c: "\<forall>r. fst (call_tool be name arguments w) = Inr r \<and> isError r \<longrightarrow>
      r = text_result (failure_text name) True"
    unfolding r using named_tool_result by blast
  from a b c show ?thesis by (intro conjI)
qed

lemma js_map_not_array: "\<forall>xs. v \<noteq> JArr xs \<Longrightarrow> js_map v f = None"
  by (cases v) auto

lemma search_text_no_data: "js_get body ''data'' = None \<Longrightarrow> search_text body = None"
  by (simp add: search_text_def)

lemma search_text_not_array:
  "js_get body ''data'' = Some v \<Longrightarrow> \<forall>xs. v \<noteq> JArr xs \<Longrightarrow> search_text body = None"
  by (simp add: search_text_def js_map_not_array)

lemma created_text_no_data: "js_get body ''data'' = None \<Longrightarrow> created_text t body = None"
  by (simp add: created_text_def)

lemma tool_failure_issued:
  "((fst (be (be_state w) (search_request arguments)) = None \<longrightarrow>
      fst (call_tool be ''search'' arguments w) =
        Inr \<lparr>result_content =
               [\<lparr>tc_type = ''text'',
                  tc_text = ''Failed to search documents. Please try again.''\<rparr>],
             isError = True\<rparr>) \<and>
    (\<forall>body. fst (be (be_state w) (search_request arguments)) = Some body \<and>
       (js_get body ''data'' = None \<or>
        (\<exists>v. js_get body ''data'' = Some v \<and> (\<forall>xs. v \<noteq> JArr xs))) \<longrightarrow>
      fst (call_tool be ''search'' arguments w) =
        Inr \<lparr>result_content =
               [\<lparr>tc_type = ''text'',
                  tc_text = ''Failed to search documents. Please try again.''\<rparr>],
             isError = True\<rparr>)) \<and>
   (fst (call_tool be ''create_annotation'' None w) =
      Inr \<lparr>result_content =
             [\<lparr>tc_type = ''text'',
                tc_text = ''Failed to create annotation. Please check your inputs and try again.''\<rparr>],
           isError = True\<rparr>) \<and>
   (\<forall>args d.
      js_to_string (obj_get args ''documentId'') = Some d \<longrightarrow>
      (fst (be (be_state w)
             (Post (''/api/documents/'' @ d @ ''/annotations'')
                (JObj [(''data'',
                        JObj [(''type'', JStr ''annotations''),
                              (''attributes'',
                               JObj [(''type'', obj_get args ''type''),
                                     (''page'', obj_get args ''page''),
                                     (''content'', obj_get args ''content'')])])]))) = None \<longrightarrow>
       fst (call_tool be ''create_annotation'' (Some args) w) =
         Inr \<lparr>result_content =
                [\<lparr>tc_type = ''text'',
                   tc_text =
                     ''Failed to create annotation. Please check your inputs and try again.''\<rparr>],
              isError = True\<rparr>) \<and>
      (\<forall>body.
         fst (be (be_state w)
             (Post (''/api/documents/'' @ d @ ''/annotations'')
                (JObj [(''data'',
                        JObj [(''type'', JStr ''annotations''),
                              (''attributes'',
                               JObj [(''type'', obj_get args ''type''),
                                     (''page'', obj_get args ''page''),
                                     (''content'', obj_get args ''content'')])])]))) = Some body \<and>
         js_get body ''data'' = None \<longrightarrow>
       fst (call_tool be ''create_annotation'' (Some args) w) =
         Inr \<lparr>result_content =
                [\<lparr>tc_type = ''text'',
                   tc_text =
                     ''Failed to create annotation. Please check your inputs and try again.''\<rparr>],
              isError = True\<rparr>))"
proof (intro conjI allI impI)
  assume "fst (be (be_state w) (search_request arguments)) = None"
  then show "fst (call_tool be ''search'' arguments w) =
        Inr \<lparr>result_content =
               [\<lparr>tc_type = ''text'',
                  tc_text = ''Failed to search documents. Please try again.''\<rparr>],
             isError = True\<rparr>"
    by (simp add: call_tool_search_fst search_try_fst text_result_def)
next
  fix body
  assume a: "fst (be (be_state w) (search_request arguments)) = Some body \<and>
       (js_get body ''data'' = None \<or>
        (\<exists>v. js_get body ''data'' = Some v \<and> (\<forall>xs. v \<noteq> JArr xs)))"
  then have "search_text body = None"
    using search_text_no_data search_text_not_array by blast
  with a show "fst (call_tool be ''search'' arguments w) =
        Inr \<lparr>result_content =
               [\<lparr>tc_type = ''text'',
                  tc_text = ''Failed to search documents. Please try again.''\<rparr>],
             isError = True\<rparr>"
    by (simp add: call_tool_search_fst search_try_fst text_result_def)
next
  show "fst (call_tool be ''create_annotation'' None w) =
      Inr \<lparr>result_content =
             [\<lparr>tc_type = ''text'',
                tc_text = ''Failed to create annotation. Please check your inputs and try again.''\<rparr>],
           isError = True\<rparr>"
    by (simp add: call_tool_create_fst create_try_fst text_result_def)
next
  fix args d
  assume d: "js_to_string (obj_get args ''documentId'') = Some d"
  assume "fst (be (be_state w)
             (Post (''/api/documents/'' @ d @ ''/annotations'')
                (JObj [(''data'',
                        JObj [(''type'', JStr ''annotations''),
                              (''attributes'',
                               JObj [(''type'', obj_get args ''type''),
                                     (''page'', obj_get args ''page''),
                                     (''content'', obj_get args ''content'')])])]))) = None"
  then have "fst (be (be_state w)
                 (Post (''/api/documents/'' @ d @ ''/annotations'')
                       (annotation_body (obj_get args ''type'') (obj_get args ''page'')
                          (obj_get args ''content'')))) = None"
    by (simp add: annotation_body_def)
  with d have "fst (create_try be (Some args) w) = None"
    by (simp add: create_try_fst)
  then show "fst (call_tool be ''create_annotation'' (Some args) w) =
         Inr \<lparr>result_content =
                [\<lparr>tc_type = ''text'',
                   tc_text =
                     ''Failed to create annotation. Please check your inputs and try again.''\<rparr>],
              isError = True\<rparr>"
    by (simp add: call_tool_create_fst text_result_def)
next
  fix args d body
  assume d: "js_to_string (obj_get args ''documentId'') = Some d"
  assume a: "fst (be (be_state w)
             (Post (''/api/documents/'' @ d @ ''/annotations'')
                (JObj [(''data'',
                        JObj [(''type'', JStr ''annotations''),
                              (''attributes'',
                               JObj [(''type'', obj_get args ''type''),
                                     (''page'', obj_get args ''page''),
                                     (''content'', obj_get args ''content'')])])]))) = Some body \<and>
         js_get body ''data'' = None"
  then have "fst (be (be_state w)
                 (Post (''/api/documents/'' @ d @ ''/annotations'')
                       (annotation_body (obj_get args ''type'') (obj_get args ''page'')
                          (obj_get args ''content'')))) = Some body"
    by (simp add: annotation_body_def)
  with d a have "fst (create_try be (Some args) w) = None"
    by (simp add: create_try_fst created_text_no_data)
  then show "fst (call_tool be ''create_annotation'' (Some args) w) =
         Inr \<lparr>result_content =
                [\<lparr>tc_type = ''text'',
                   tc_text =
                     ''Failed to create annotation. Please check your inputs and try again.''\<rparr>],
              isError = True\<rparr>"
    by (simp add: call_tool_create_fst text_result_def)
qed

text \<open>
  C5: \<^verbatim>\<open>search\<close> and \<^verbatim>\<open>create_annotation\<close> never throw. The handler returns a result
  for every backend, arguments and world, and every result with \<^verbatim>\<open>isError\<close> set is the
  fixed message of the tool. That result is returned when the backend rejects the call
  that was issued, whatever it does with other calls, when it answers with a body that
  has no \<^verbatim>\<open>data\<close> (for a search, also with \<^verbatim>\<open>data\<close> that is no array), and when the
  arguments of \<^verbatim>\<open>create_annotation\<close> are missing.
\<close>

theorem tool_failure_is_flagged:
  "name = ''search'' \<or> name = ''create_annotation'' \<Longrightarrow>
   ((\<exists>r. fst (call_tool be name arguments w) = Inr r) \<and>
   ((\<forall>req. fst (be (be_state w) req) = None) \<longrightarrow>
      fst (call_tool be name arguments w) = Inr (text_result (failure_text name) True)) \<and>
   (\<forall>r. fst (call_tool be name arguments w) = Inr r \<and> isError r \<longrightarrow>
      r = text_result (failure_text name) True)) \<and>
   (((fst (be (be_state w) (search_request arguments)) = None \<longrightarrow>
      fst (call_tool be ''search'' arguments w) =
        Inr \<lparr>result_content =
               [\<lparr>tc_type = ''text'',
                  tc_text = ''Failed to search documents. Please try again.''\<rparr>],
             isError = True\<rparr>) \<and>
    (\<forall>body. fst (be (be_state w) (search_request arguments)) = Some body \<and>
       (js_get body ''data'' = None \<or>
        (\<exists>v. js_get body ''data'' = Some v \<and> (\<forall>xs. v \<noteq> JArr xs))) \<longrightarrow>
      fst (call_tool be ''search'' arguments w) =
        Inr \<lparr>result_content =
               [\<lparr>tc_type = ''text'',
                  tc_text = ''Failed to search documents. Please try again.''\<rparr>],
             isError = True\<rparr>)) \<and>
   (fst (call_tool be ''create_annotation'' None w) =
      Inr \<lparr>result_content =
             [\<lparr>tc_type = ''text'',
                tc_text = ''Failed to create annotation. Please check your inputs and try again.''\<rparr>],
           isError = True\<rparr>) \<and>
   (\<forall>args d.
      js_to_string (obj_get args ''documentId'') = Some d \<longrightarrow>
      (fst (be (be_state w)
             (Post (''/api/documents/'' @ d @ ''/annotations'')
                (JObj [(''data'',
                        JObj [(''type'', JStr ''annotations''),
                              (''attributes'',
                               JObj [(''type'', obj_get args ''type''),
                                     (''page'', obj_get args ''page''),
                                     (''content'', obj_get args ''content'')])])]))) = None \<longrightarrow>
       fst (call_tool be ''create_annotation'' (Some args) w) =
         Inr \<lparr>result_content =
                [\<lparr>tc_type = ''text'',
                   tc_text =
                     ''Failed to create annotation. Please check your inputs and try again.''\<rparr>],
              isError = True\<rparr>) \<and>
      (\<forall>body.
         fst (be (be_state w)
             (Post (''/api/documents/'' @ d @ ''/annotations'')
                (JObj [(''data'',
                        JObj [(''type'', JStr ''annotations''),
                              (''attributes'',
                               JObj [(''type'', obj_get args ''type''),
                                     (''page'', obj_get args ''page''),
                                     (''content'', obj_get args ''content'')])])]))) = Some body \<and>
         js_get body ''data'' = None \<longrightarrow>
       fst (call_tool be ''create_annotation'' (Some args) w) =
         Inr \<lparr>result_content =
                [\<lparr>tc_type = ''text'',
                   tc_text =
                     ''Failed to create annotation. Please check your inputs and try again.''\<rparr>],
              isError = True\<rparr>)))"
proof -
  assume n: "name = ''search'' \<or> name = ''create_annotation''"
  from tool_failure_general [OF n] tool_failure_issued show ?thesis by (rule conjI)
qed

theorem tool_failure_is_flagged_witness:
  "(\<forall>req. fst (backend_down (be_state world0) req) = None) \<and>
   fst (call_tool backend_down ''search'' (Some [(''query'', JStr ''invoice'')]) world0) =
     Inr \<lparr>result_content = [\<lparr>tc_type = ''text'',
             tc_text = ''Failed to search documents. Please try again.''\<rparr>], isError = True\<rparr> \<and>
   fst (listing_down_backend (be_state world0)
          (search_request (Some [(''query'', JStr ''invoice'')]))) = None \<and>
   fst (listing_down_backend (be_state world0) (Get ''/api/documents/abc123'' JUndefined)) =
     Some (JObj [(''data'', invoice)]) \<and>
   fst (call_tool listing_down_backend ''search'' (Some [(''query'', JStr ''invoice'')]) world0) =
     Inr \<lparr>result_content = [\<lparr>tc_type = ''text'',
             tc_text = ''Failed to search documents. Please try again.''\<rparr>], isError = True\<rparr> \<and>
   fst (null_backend (be_state world0) (search_request None)) = Some JNull \<and>
   js_get JNull ''data'' = None \<and>
   fst (call_tool null_backend ''search'' None world0) =
     Inr \<lparr>result_content = [\<lparr>tc_type = ''text'',
             tc_text = ''Failed to search documents. Please try again.''\<rparr>], isError = True\<rparr> \<and>
   js_to_string (obj_get unknown_document_arguments ''documentId'') = Some ''nope'' \<and>
   fst (demo_backend (be_state world0)
          (Post (''/api/documents/'' @ ''nope'' @ ''/annotations'')
             (JObj [(''data'',
                     JObj [(''type'', JStr ''annotations''),
                           (''attributes'',
                            JObj [(''type'', obj_get unknown_document_arguments ''type''),
                                  (''page'', obj_get unknown_document_arguments ''page''),
                                  (''content'', obj_get unknown_document_arguments ''content'')])])]))) =
     None \<and>
   fst (demo_backend (be_state world0) (Get ''/api/documents'' (JObj []))) =
     Some documents_body \<and>
   fst (call_tool demo_backend ''create_annotation'' (Some unknown_document_arguments) world0) =
     Inr \<lparr>result_content = [\<lparr>tc_type = ''text'',
             tc_text = ''Failed to create annotation. Please check your inputs and try again.''\<rparr>],
          isError = True\<rparr>"
proof -
  have d: "\<forall>req. fst (backend_down (be_state world0) req) = None"
    by (simp add: backend_down_def)
  have n: "''search'' = ''search'' \<or> ''search'' = ''create_annotation''" by simp
  have "fst (call_tool backend_down ''search'' (Some [(''query'', JStr ''invoice'')]) world0) =
      Inr (text_result (failure_text ''search'') True)"
    using tool_failure_is_flagged [OF n, of backend_down "Some [(''query'', JStr ''invoice'')]"
        world0, THEN conjunct1, THEN conjunct2, THEN conjunct1, THEN mp, OF d] .
  then have a: "fst (call_tool backend_down ''search'' (Some [(''query'', JStr ''invoice'')])
                       world0) =
     Inr \<lparr>result_content = [\<lparr>tc_type = ''text'',
             tc_text = ''Failed to search documents. Please try again.''\<rparr>], isError = True\<rparr>"
    by (simp add: failure_text_def text_result_def)
  have l: "fst (listing_down_backend (be_state world0)
          (search_request (Some [(''query'', JStr ''invoice'')]))) = None"
    by code_simp
  have l': "fst (listing_down_backend (be_state world0)
                  (Get ''/api/documents/abc123'' JUndefined)) = Some (JObj [(''data'', invoice)])"
    by code_simp
  have b: "fst (call_tool listing_down_backend ''search'' (Some [(''query'', JStr ''invoice'')])
                  world0) =
     Inr \<lparr>result_content = [\<lparr>tc_type = ''text'',
             tc_text = ''Failed to search documents. Please try again.''\<rparr>], isError = True\<rparr>"
    using tool_failure_is_flagged [OF n, of listing_down_backend
        "Some [(''query'', JStr ''invoice'')]" world0,
        THEN conjunct2, THEN conjunct1, THEN conjunct1, THEN mp, OF l] .
  have m: "fst (null_backend (be_state world0) (search_request None)) = Some JNull"
    by code_simp
  have m': "js_get JNull ''data'' = None" by simp
  have c: "fst (call_tool null_backend ''search'' None world0) =
     Inr \<lparr>result_content = [\<lparr>tc_type = ''text'',
             tc_text = ''Failed to search documents. Please try again.''\<rparr>], isError = True\<rparr>"
    using tool_failure_is_flagged [OF n, of null_backend None world0,
        THEN conjunct2, THEN conjunct1, THEN conjunct2, THEN spec [where x = JNull], THEN mp,
        OF conjI [OF m disjI1 [OF m']]] .
  have i: "js_to_string (obj_get unknown_document_arguments ''documentId'') = Some ''nope''"
    by code_simp
  have p: "fst (demo_backend (be_state world0)
          (Post (''/api/documents/'' @ ''nope'' @ ''/annotations'')
             (JObj [(''data'',
                     JObj [(''type'', JStr ''annotations''),
                           (''attributes'',
                            JObj [(''type'', obj_get unknown_document_arguments ''type''),
                                  (''page'', obj_get unknown_document_arguments ''page''),
                                  (''content'', obj_get unknown_document_arguments ''content'')])])]))) =
     None"
    by code_simp
  have p': "fst (demo_backend (be_state world0) (Get ''/api/documents'' (JObj []))) =
     Some documents_body"
    by code_simp
  have e: "fst (call_tool demo_backend ''create_annotation'' (Some unknown_document_arguments)
                  world0) =
     Inr \<lparr>result_content = [\<lparr>tc_type = ''text'',
             tc_text = ''Failed to create annotation. Please check your inputs and try again.''\<rparr>],
          isError = True\<rparr>"
    using tool_failure_is_flagged [OF n, of demo_backend None world0,
        THEN conjunct2, THEN conjunct2, THEN conjunct2,
        THEN spec [where x = unknown_document_arguments], THEN spec [where x = "''nope''"],
        THEN mp, OF i, THEN conjunct1, THEN mp, OF p] .
  from d a l l' b m m' c i p p' e show ?thesis by (intro conjI)
qed

section \<open>Creating an annotation\<close>

lemma create_post_calls:
  "js_to_string (obj_get args ''documentId'') = Some d \<Longrightarrow>
   calls (snd (call_tool be ''create_annotation'' (Some args) w)) =
     calls w @
     [Post (''/api/documents/'' @ d @ ''/annotations'')
        (JObj [(''data'',
                JObj [(''type'', JStr ''annotations''),
                      (''attributes'',
                       JObj [(''type'', obj_get args ''type''), (''page'', obj_get args ''page''),
                             (''content'', obj_get args ''content'')])])])]"
  using create_try_calls [of args d be w]
  by (simp add: call_tool_create_calls annotation_body_def)

lemma created_text_Some:
  "js_get body ''data'' = Some annotation \<Longrightarrow> js_get annotation ''id'' = Some i \<Longrightarrow>
   js_to_string i = Some s \<Longrightarrow> js_to_string t = Some ts \<Longrightarrow>
   created_text t body = Some (''Successfully created '' @ ts @ '' annotation with ID: '' @ s)"
  by (simp add: created_text_def)

lemma created_text_None:
  "created_text t body = None \<Longrightarrow>
   js_get body ''data'' = None \<or> js_to_string t = None \<or>
   (\<exists>annotation. js_get body ''data'' = Some annotation \<and>
      (js_get annotation ''id'' = None \<or>
       (\<exists>i. js_get annotation ''id'' = Some i \<and> js_to_string i = None)))"
  by (auto simp: created_text_def split: Option.bind_splits)

lemma create_success:
  "js_to_string (obj_get args ''documentId'') = Some d \<Longrightarrow>
   fst (be (be_state w)
         (Post (''/api/documents/'' @ d @ ''/annotations'')
            (JObj [(''data'',
                    JObj [(''type'', JStr ''annotations''),
                          (''attributes'',
                           JObj [(''type'', obj_get args ''type''),
                                 (''page'', obj_get args ''page''),
                                 (''content'', obj_get args ''content'')])])]))) = Some body \<Longrightarrow>
   js_get body ''data'' = Some annotation \<Longrightarrow> js_get annotation ''id'' = Some i \<Longrightarrow>
   js_to_string i = Some s \<Longrightarrow> js_to_string (obj_get args ''type'') = Some t \<Longrightarrow>
   fst (call_tool be ''create_annotation'' (Some args) w) =
     Inr \<lparr>result_content =
            [\<lparr>tc_type = ''text'',
               tc_text = ''Successfully created '' @ t @ '' annotation with ID: '' @ s\<rparr>],
          isError = False\<rparr>"
proof -
  assume d: "js_to_string (obj_get args ''documentId'') = Some d"
    and a: "js_get body ''data'' = Some annotation" and i: "js_get annotation ''id'' = Some i"
    and s: "js_to_string i = Some s" and t: "js_to_string (obj_get args ''type'') = Some t"
  assume "fst (be (be_state w)
         (Post (''/api/documents/'' @ d @ ''/annotations'')
            (JObj [(''data'',
                    JObj [(''type'', JStr ''annotations''),
                          (''attributes'',
                           JObj [(''type'', obj_get args ''type''),
                                 (''page'', obj_get args ''page''),
                                 (''content'', obj_get args ''content'')])])]))) = Some body"
  then have b: "fst (be (be_state w)
                 (Post (''/api/documents/'' @ d @ ''/annotations'')
                       (annotation_body (obj_get args ''type'') (obj_get args ''page'')
                          (obj_get args ''content'')))) = Some body"
    by (simp add: annotation_body_def)
  from d have c: "fst (create_try be (Some args) w) =
      (case fst (be (be_state w)
                 (Post (''/api/documents/'' @ d @ ''/annotations'')
                       (annotation_body (obj_get args ''type'') (obj_get args ''page'')
                          (obj_get args ''content'')))) of
         None \<Rightarrow> None
       | Some body \<Rightarrow> created_text (obj_get args ''type'') body)"
    by (simp add: create_try_fst)
  have "fst (create_try be (Some args) w) = created_text (obj_get args ''type'') body"
    unfolding c b by simp
  also have "\<dots> = Some (''Successfully created '' @ t @ '' annotation with ID: '' @ s)"
    by (rule created_text_Some [OF a i s t])
  finally have "fst (create_try be (Some args) w) =
      Some (''Successfully created '' @ t @ '' annotation with ID: '' @ s)" .
  then show ?thesis by (simp add: call_tool_create_fst text_result_def)
qed

lemma create_error_only_if:
  "js_to_string (obj_get args ''documentId'') = Some d \<Longrightarrow>
   fst (call_tool be ''create_annotation'' (Some args) w) = Inr r \<Longrightarrow> isError r \<Longrightarrow>
   fst (be (be_state w)
         (Post (''/api/documents/'' @ d @ ''/annotations'')
            (JObj [(''data'',
                    JObj [(''type'', JStr ''annotations''),
                          (''attributes'',
                           JObj [(''type'', obj_get args ''type''),
                                 (''page'', obj_get args ''page''),
                                 (''content'', obj_get args ''content'')])])]))) = None \<or>
   (\<exists>body.
      fst (be (be_state w)
         (Post (''/api/documents/'' @ d @ ''/annotations'')
            (JObj [(''data'',
                    JObj [(''type'', JStr ''annotations''),
                          (''attributes'',
                           JObj [(''type'', obj_get args ''type''),
                                 (''page'', obj_get args ''page''),
                                 (''content'', obj_get args ''content'')])])]))) = Some body \<and>
      (js_get body ''data'' = None \<or> js_to_string (obj_get args ''type'') = None \<or>
       (\<exists>annotation. js_get body ''data'' = Some annotation \<and>
          (js_get annotation ''id'' = None \<or>
           (\<exists>i. js_get annotation ''id'' = Some i \<and> js_to_string i = None)))))"
proof -
  assume d: "js_to_string (obj_get args ''documentId'') = Some d"
    and r: "fst (call_tool be ''create_annotation'' (Some args) w) = Inr r" and e: "isError r"
  from r e have n: "fst (create_try be (Some args) w) = None"
    by (auto simp: call_tool_create_fst isError_text_result split: option.splits)
  show ?thesis
  proof (cases "fst (be (be_state w)
                 (Post (''/api/documents/'' @ d @ ''/annotations'')
                       (annotation_body (obj_get args ''type'') (obj_get args ''page'')
                          (obj_get args ''content''))))")
    case None
    then show ?thesis by (simp add: annotation_body_def)
  next
    case (Some body)
    from d have c: "fst (create_try be (Some args) w) =
      (case fst (be (be_state w)
                 (Post (''/api/documents/'' @ d @ ''/annotations'')
                       (annotation_body (obj_get args ''type'') (obj_get args ''page'')
                          (obj_get args ''content'')))) of
         None \<Rightarrow> None
       | Some body \<Rightarrow> created_text (obj_get args ''type'') body)"
      by (simp add: create_try_fst)
    have "fst (create_try be (Some args) w) = created_text (obj_get args ''type'') body"
      unfolding c Some by simp
    with n have "created_text (obj_get args ''type'') body = None" by simp
    from created_text_None [OF this] Some show ?thesis
      by (simp add: annotation_body_def)
  qed
qed

lemma create_post_and_text:
  "js_to_string (obj_get args ''documentId'') = Some d \<Longrightarrow>
   calls (snd (call_tool be ''create_annotation'' (Some args) w)) =
     calls w @
     [Post (''/api/documents/'' @ d @ ''/annotations'')
        (JObj [(''data'',
                JObj [(''type'', JStr ''annotations''),
                      (''attributes'',
                       JObj [(''type'', obj_get args ''type''), (''page'', obj_get args ''page''),
                             (''content'', obj_get args ''content'')])])])] \<and>
   (\<forall>r. fst (call_tool be ''create_annotation'' (Some args) w) = Inr r \<and> \<not> isError r \<longrightarrow>
      (\<exists>body annotation id s t.
         fst (be (be_state w)
               (Post (''/api/documents/'' @ d @ ''/annotations'')
                  (annotation_body (obj_get args ''type'') (obj_get args ''page'')
                     (obj_get args ''content'')))) = Some body \<and>
         js_get body ''data'' = Some annotation \<and>
         js_get annotation ''id'' = Some id \<and>
         js_to_string id = Some s \<and>
         js_to_string (obj_get args ''type'') = Some t \<and>
         result_content r =
           [\<lparr>tc_type = ''text'',
              tc_text = ''Successfully created '' @ t @ '' annotation with ID: '' @ s\<rparr>]))"
proof (intro conjI allI impI)
  assume d: "js_to_string (obj_get args ''documentId'') = Some d"
  show "calls (snd (call_tool be ''create_annotation'' (Some args) w)) =
     calls w @
     [Post (''/api/documents/'' @ d @ ''/annotations'')
        (JObj [(''data'',
                JObj [(''type'', JStr ''annotations''),
                      (''attributes'',
                       JObj [(''type'', obj_get args ''type''), (''page'', obj_get args ''page''),
                             (''content'', obj_get args ''content'')])])])]"
    using create_try_calls [OF d, of be w]
    by (simp add: call_tool_create_calls annotation_body_def)
next
  fix r
  assume d: "js_to_string (obj_get args ''documentId'') = Some d"
    and r: "fst (call_tool be ''create_annotation'' (Some args) w) = Inr r \<and> \<not> isError r"
  from r obtain msg where t: "fst (create_try be (Some args) w) = Some msg"
    and rt: "r = text_result msg False"
    by (auto simp: call_tool_create_fst isError_text_result split: option.splits)
  from t d obtain body where
    b: "fst (be (be_state w)
               (Post (''/api/documents/'' @ d @ ''/annotations'')
                  (annotation_body (obj_get args ''type'') (obj_get args ''page'')
                     (obj_get args ''content'')))) = Some body"
    and c: "created_text (obj_get args ''type'') body = Some msg"
    by (auto simp: create_try_fst split: option.splits)
  from c obtain annotation id s t where
    "js_get body ''data'' = Some annotation" "js_get annotation ''id'' = Some id"
    "js_to_string id = Some s" "js_to_string (obj_get args ''type'') = Some t"
    "msg = ''Successfully created '' @ t @ '' annotation with ID: '' @ s"
    by (auto simp: created_text_def split: Option.bind_splits)
  with b rt show "\<exists>body annotation id s t.
         fst (be (be_state w)
               (Post (''/api/documents/'' @ d @ ''/annotations'')
                  (annotation_body (obj_get args ''type'') (obj_get args ''page'')
                     (obj_get args ''content'')))) = Some body \<and>
         js_get body ''data'' = Some annotation \<and>
         js_get annotation ''id'' = Some id \<and>
         js_to_string id = Some s \<and>
         js_to_string (obj_get args ''type'') = Some t \<and>
         result_content r =
           [\<lparr>tc_type = ''text'',
              tc_text = ''Successfully created '' @ t @ '' annotation with ID: '' @ s\<rparr>]"
    by (auto simp: text_result_def)
qed

lemma create_success_all:
  "js_to_string (obj_get args ''documentId'') = Some d \<Longrightarrow>
   \<forall>body annotation i s t.
      fst (be (be_state w)
            (Post (''/api/documents/'' @ d @ ''/annotations'')
        (JObj [(''data'',
                JObj [(''type'', JStr ''annotations''),
                      (''attributes'',
                       JObj [(''type'', obj_get args ''type''), (''page'', obj_get args ''page''),
                             (''content'', obj_get args ''content'')])])]))) = Some body \<and>
      js_get body ''data'' = Some annotation \<and> js_get annotation ''id'' = Some i \<and>
      js_to_string i = Some s \<and> js_to_string (obj_get args ''type'') = Some t \<longrightarrow>
      fst (call_tool be ''create_annotation'' (Some args) w) =
        Inr \<lparr>result_content =
               [\<lparr>tc_type = ''text'',
                  tc_text = ''Successfully created '' @ t @ '' annotation with ID: '' @ s\<rparr>],
             isError = False\<rparr>"
proof (intro allI impI)
  fix body annotation i s t
  assume d: "js_to_string (obj_get args ''documentId'') = Some d"
  assume h: "fst (be (be_state w)
            (Post (''/api/documents/'' @ d @ ''/annotations'')
        (JObj [(''data'',
                JObj [(''type'', JStr ''annotations''),
                      (''attributes'',
                       JObj [(''type'', obj_get args ''type''), (''page'', obj_get args ''page''),
                             (''content'', obj_get args ''content'')])])]))) = Some body \<and>
      js_get body ''data'' = Some annotation \<and> js_get annotation ''id'' = Some i \<and>
      js_to_string i = Some s \<and> js_to_string (obj_get args ''type'') = Some t"
  show "fst (call_tool be ''create_annotation'' (Some args) w) =
        Inr \<lparr>result_content =
               [\<lparr>tc_type = ''text'',
                  tc_text = ''Successfully created '' @ t @ '' annotation with ID: '' @ s\<rparr>],
             isError = False\<rparr>"
    by (rule create_success [where be = be and w = w, OF d h [THEN conjunct1] h [THEN conjunct2, THEN conjunct1]
          h [THEN conjunct2, THEN conjunct2, THEN conjunct1]
          h [THEN conjunct2, THEN conjunct2, THEN conjunct2, THEN conjunct1]
          h [THEN conjunct2, THEN conjunct2, THEN conjunct2, THEN conjunct2]])
qed

text \<open>
  C7 (corrected form): \<^verbatim>\<open>create_annotation\<close> with arguments whose \<^verbatim>\<open>documentId\<close> has a
  string conversion \<open>d\<close> (every string, number and boolean has one) issues exactly one
  call, the POST to \<^verbatim>\<open>/api/documents/d/annotations\<close>, with the body
  \<^verbatim>\<open>{data: {type: "annotations", attributes: {type, page, content}}}\<close>. When the backend
  answers with an annotation in \<^verbatim>\<open>data\<close> whose id and the type can be printed, the
  result has no \<^verbatim>\<open>isError\<close> and the text
  \<^verbatim>\<open>Successfully created <type> annotation with ID: <id>\<close>, and every result without
  \<^verbatim>\<open>isError\<close> is of this form.
\<close>

theorem create_annotation_post:
  "js_to_string (obj_get args ''documentId'') = Some d \<Longrightarrow>
   calls (snd (call_tool be ''create_annotation'' (Some args) w)) =
     calls w @
     [Post (''/api/documents/'' @ d @ ''/annotations'')
        (JObj [(''data'',
                JObj [(''type'', JStr ''annotations''),
                      (''attributes'',
                       JObj [(''type'', obj_get args ''type''), (''page'', obj_get args ''page''),
                             (''content'', obj_get args ''content'')])])])] \<and>
   (\<forall>r. fst (call_tool be ''create_annotation'' (Some args) w) = Inr r \<and> \<not> isError r \<longrightarrow>
      (\<exists>body annotation id s t.
         fst (be (be_state w)
               (Post (''/api/documents/'' @ d @ ''/annotations'')
                  (annotation_body (obj_get args ''type'') (obj_get args ''page'')
                     (obj_get args ''content'')))) = Some body \<and>
         js_get body ''data'' = Some annotation \<and>
         js_get annotation ''id'' = Some id \<and>
         js_to_string id = Some s \<and>
         js_to_string (obj_get args ''type'') = Some t \<and>
         result_content r =
           [\<lparr>tc_type = ''text'',
              tc_text = ''Successfully created '' @ t @ '' annotation with ID: '' @ s\<rparr>])) \<and>
   (\<forall>body annotation i s t.
      fst (be (be_state w)
            (Post (''/api/documents/'' @ d @ ''/annotations'')
        (JObj [(''data'',
                JObj [(''type'', JStr ''annotations''),
                      (''attributes'',
                       JObj [(''type'', obj_get args ''type''), (''page'', obj_get args ''page''),
                             (''content'', obj_get args ''content'')])])]))) = Some body \<and>
      js_get body ''data'' = Some annotation \<and> js_get annotation ''id'' = Some i \<and>
      js_to_string i = Some s \<and> js_to_string (obj_get args ''type'') = Some t \<longrightarrow>
      fst (call_tool be ''create_annotation'' (Some args) w) =
        Inr \<lparr>result_content =
               [\<lparr>tc_type = ''text'',
                  tc_text = ''Successfully created '' @ t @ '' annotation with ID: '' @ s\<rparr>],
             isError = False\<rparr>)"
proof -
  assume d: "js_to_string (obj_get args ''documentId'') = Some d"
  note o = create_post_and_text [OF d, of be w]
  from o [THEN conjunct1] o [THEN conjunct2] create_success_all [OF d, of be w]
  show ?thesis by (intro conjI)
qed

text \<open>
  C7 as stated does not hold on a \<^verbatim>\<open>documentId\<close> that is an object with an own
  \<^verbatim>\<open>toString\<close>: the path of the request cannot be built, and no POST is issued.
\<close>

theorem create_annotation_no_post:
  "js_to_string (obj_get shadowed_id_arguments ''documentId'') = None \<and>
   calls (snd (call_tool demo_backend ''create_annotation'' (Some shadowed_id_arguments) world0)) =
     [] \<and>
   fst (call_tool demo_backend ''create_annotation'' (Some shadowed_id_arguments) world0) =
     Inr \<lparr>result_content =
            [\<lparr>tc_type = ''text'',
               tc_text = ''Failed to create annotation. Please check your inputs and try again.''\<rparr>],
          isError = True\<rparr>"
  by code_simp

lemma demo_post:
  "fst (demo_backend s (Post ''/api/documents/abc123/annotations'' b)) = Some created_body"
  by (simp add: demo_backend_def)

theorem create_annotation_post_witness:
  "js_to_string (obj_get note_arguments ''documentId'') = Some ''abc123'' \<and>
   calls (snd (call_tool demo_backend ''create_annotation'' (Some note_arguments) world0)) =
     [Post ''/api/documents/abc123/annotations''
        (JObj [(''data'',
                JObj [(''type'', JStr ''annotations''),
                      (''attributes'',
                       JObj [(''type'', JStr ''note''), (''page'', JNum ''1''),
                             (''content'', JObj [(''text'', JStr ''hi'')])])])])] \<and>
   fst (call_tool demo_backend ''create_annotation'' (Some note_arguments) world0) =
     Inr \<lparr>result_content =
            [\<lparr>tc_type = ''text'',
               tc_text = ''Successfully created note annotation with ID: ann42''\<rparr>],
          isError = False\<rparr> \<and>
   js_get (JObj [(''data'', JObj [(''id'', JNum ''1e+21'')])]) ''data'' =
     Some (JObj [(''id'', JNum ''1e+21'')]) \<and>
   js_get (JObj [(''id'', JNum ''1e+21'')]) ''id'' = Some (JNum ''1e+21'') \<and>
   js_to_string (JNum ''1e+21'') = Some ''1e+21'' \<and>
   js_to_string (obj_get note_arguments ''type'') = Some ''note'' \<and>
   fst (call_tool big_id_backend ''create_annotation'' (Some note_arguments) world0) =
     Inr \<lparr>result_content =
            [\<lparr>tc_type = ''text'',
               tc_text = ''Successfully created '' @ ''note'' @ '' annotation with ID: '' @
                         ''1e+21''\<rparr>],
          isError = False\<rparr>"
proof -
  have d: "js_to_string (obj_get note_arguments ''documentId'') = Some ''abc123''"
    by code_simp
  have r: "fst (call_tool demo_backend ''create_annotation'' (Some note_arguments) world0) =
     Inr \<lparr>result_content =
            [\<lparr>tc_type = ''text'',
               tc_text = ''Successfully created note annotation with ID: ann42''\<rparr>],
          isError = False\<rparr>"
    by code_simp
  have c: "calls (snd (call_tool demo_backend ''create_annotation'' (Some note_arguments) world0)) =
     [Post ''/api/documents/abc123/annotations''
        (JObj [(''data'',
                JObj [(''type'', JStr ''annotations''),
                      (''attributes'',
                       JObj [(''type'', JStr ''note''), (''page'', JNum ''1''),
                             (''content'', JObj [(''text'', JStr ''hi'')])])])])]"
    using create_annotation_post [OF d, of demo_backend world0, THEN conjunct1]
    by (simp add: note_arguments_def obj_get_def world0_def)
  have b: "fst (big_id_backend (be_state world0)
            (Post (''/api/documents/'' @ ''abc123'' @ ''/annotations'')
               (JObj [(''data'',
                       JObj [(''type'', JStr ''annotations''),
                             (''attributes'',
                              JObj [(''type'', obj_get note_arguments ''type''),
                                    (''page'', obj_get note_arguments ''page''),
                                    (''content'', obj_get note_arguments ''content'')])])]))) =
      Some (JObj [(''data'', JObj [(''id'', JNum ''1e+21'')])])"
    by (simp add: big_id_backend_def)
  have g1: "js_get (JObj [(''data'', JObj [(''id'', JNum ''1e+21'')])]) ''data'' =
     Some (JObj [(''id'', JNum ''1e+21'')])" by code_simp
  have g2: "js_get (JObj [(''id'', JNum ''1e+21'')]) ''id'' = Some (JNum ''1e+21'')"
    by code_simp
  have g3: "js_to_string (JNum ''1e+21'') = Some ''1e+21''" by simp
  have g4: "js_to_string (obj_get note_arguments ''type'') = Some ''note''" by code_simp
  have big: "fst (call_tool big_id_backend ''create_annotation'' (Some note_arguments) world0) =
     Inr \<lparr>result_content =
            [\<lparr>tc_type = ''text'',
               tc_text = ''Successfully created '' @ ''note'' @ '' annotation with ID: '' @
                         ''1e+21''\<rparr>],
          isError = False\<rparr>"
    using create_annotation_post [OF d, of big_id_backend world0, THEN conjunct2, THEN conjunct2,
        THEN spec [where x = "JObj [(''data'', JObj [(''id'', JNum ''1e+21'')])]"],
        THEN spec [where x = "JObj [(''id'', JNum ''1e+21'')]"],
        THEN spec [where x = "JNum ''1e+21''"], THEN spec [where x = "''1e+21''"],
        THEN spec [where x = "''note''"], THEN mp,
        OF conjI [OF b conjI [OF g1 conjI [OF g2 conjI [OF g3 g4]]]]] .
  from d c r g1 g2 g3 g4 big show ?thesis by (intro conjI)
qed

text \<open>
  C10 (corrected form): \<^verbatim>\<open>create_annotation\<close> validates nothing. For every arguments object
  whose \<^verbatim>\<open>documentId\<close> has a string conversion, the one POST carries the values of
  \<^verbatim>\<open>type\<close>, \<^verbatim>\<open>page\<close> and \<^verbatim>\<open>content\<close> as they are, whatever they are, and the handler
  returns a result. Whenever the backend answers with an annotation whose id can be
  printed and the type can be printed too (as every string, number and boolean can), the
  result is the success message. \<^verbatim>\<open>isError\<close> is set only if the backend rejected the
  call, or its answer has no \<^verbatim>\<open>data\<close> or no id that can be read and printed, or the type
  has no string conversion.
\<close>

theorem create_annotation_no_validation:
  "js_to_string (obj_get args ''documentId'') = Some d \<Longrightarrow>
   calls (snd (call_tool be ''create_annotation'' (Some args) w)) =
     calls w @
     [Post (''/api/documents/'' @ d @ ''/annotations'')
        (JObj [(''data'',
                JObj [(''type'', JStr ''annotations''),
                      (''attributes'',
                       JObj [(''type'', obj_get args ''type''), (''page'', obj_get args ''page''),
                             (''content'', obj_get args ''content'')])])])] \<and>
   (\<exists>r. fst (call_tool be ''create_annotation'' (Some args) w) = Inr r \<and>
        (isError r \<longrightarrow>
           (case fst (be (be_state w)
                       (Post (''/api/documents/'' @ d @ ''/annotations'')
                  (annotation_body (obj_get args ''type'') (obj_get args ''page'')
                     (obj_get args ''content'')))) of
              None \<Rightarrow> True
            | Some body \<Rightarrow> created_text (obj_get args ''type'') body = None))) \<and>
   (\<forall>body annotation i s t.
      fst (be (be_state w)
            (Post (''/api/documents/'' @ d @ ''/annotations'')
        (JObj [(''data'',
                JObj [(''type'', JStr ''annotations''),
                      (''attributes'',
                       JObj [(''type'', obj_get args ''type''), (''page'', obj_get args ''page''),
                             (''content'', obj_get args ''content'')])])]))) = Some body \<and>
      js_get body ''data'' = Some annotation \<and> js_get annotation ''id'' = Some i \<and>
      js_to_string i = Some s \<and> js_to_string (obj_get args ''type'') = Some t \<longrightarrow>
      fst (call_tool be ''create_annotation'' (Some args) w) =
        Inr \<lparr>result_content =
               [\<lparr>tc_type = ''text'',
                  tc_text = ''Successfully created '' @ t @ '' annotation with ID: '' @ s\<rparr>],
             isError = False\<rparr>) \<and>
   (\<forall>r. fst (call_tool be ''create_annotation'' (Some args) w) = Inr r \<and> isError r \<longrightarrow>
      fst (be (be_state w)
            (Post (''/api/documents/'' @ d @ ''/annotations'')
        (JObj [(''data'',
                JObj [(''type'', JStr ''annotations''),
                      (''attributes'',
                       JObj [(''type'', obj_get args ''type''), (''page'', obj_get args ''page''),
                             (''content'', obj_get args ''content'')])])]))) = None \<or>
      (\<exists>body.
         fst (be (be_state w)
               (Post (''/api/documents/'' @ d @ ''/annotations'')
        (JObj [(''data'',
                JObj [(''type'', JStr ''annotations''),
                      (''attributes'',
                       JObj [(''type'', obj_get args ''type''), (''page'', obj_get args ''page''),
                             (''content'', obj_get args ''content'')])])]))) = Some body \<and>
         (js_get body ''data'' = None \<or> js_to_string (obj_get args ''type'') = None \<or>
          (\<exists>annotation. js_get body ''data'' = Some annotation \<and>
             (js_get annotation ''id'' = None \<or>
              (\<exists>i. js_get annotation ''id'' = Some i \<and> js_to_string i = None))))))"
proof -
  assume d: "js_to_string (obj_get args ''documentId'') = Some d"
  have a: "\<exists>r. fst (call_tool be ''create_annotation'' (Some args) w) = Inr r \<and>
        (isError r \<longrightarrow>
           (case fst (be (be_state w)
                       (Post (''/api/documents/'' @ d @ ''/annotations'')
                  (annotation_body (obj_get args ''type'') (obj_get args ''page'')
                     (obj_get args ''content'')))) of
              None \<Rightarrow> True
            | Some body \<Rightarrow> created_text (obj_get args ''type'') body = None))"
    by (simp add: call_tool_create_fst create_try_fst d isError_text_result
          split: option.splits)
  have e: "\<forall>r. fst (call_tool be ''create_annotation'' (Some args) w) = Inr r \<and> isError r \<longrightarrow>
      fst (be (be_state w)
            (Post (''/api/documents/'' @ d @ ''/annotations'')
        (JObj [(''data'',
                JObj [(''type'', JStr ''annotations''),
                      (''attributes'',
                       JObj [(''type'', obj_get args ''type''), (''page'', obj_get args ''page''),
                             (''content'', obj_get args ''content'')])])]))) = None \<or>
      (\<exists>body.
         fst (be (be_state w)
               (Post (''/api/documents/'' @ d @ ''/annotations'')
        (JObj [(''data'',
                JObj [(''type'', JStr ''annotations''),
                      (''attributes'',
                       JObj [(''type'', obj_get args ''type''), (''page'', obj_get args ''page''),
                             (''content'', obj_get args ''content'')])])]))) = Some body \<and>
         (js_get body ''data'' = None \<or> js_to_string (obj_get args ''type'') = None \<or>
          (\<exists>annotation. js_get body ''data'' = Some annotation \<and>
             (js_get annotation ''id'' = None \<or>
              (\<exists>i. js_get annotation ''id'' = Some i \<and> js_to_string i = None)))))"
  proof (intro allI impI)
    fix r
    assume h: "fst (call_tool be ''create_annotation'' (Some args) w) = Inr r \<and> isError r"
    show "fst (be (be_state w)
            (Post (''/api/documents/'' @ d @ ''/annotations'')
        (JObj [(''data'',
                JObj [(''type'', JStr ''annotations''),
                      (''attributes'',
                       JObj [(''type'', obj_get args ''type''), (''page'', obj_get args ''page''),
                             (''content'', obj_get args ''content'')])])]))) = None \<or>
      (\<exists>body.
         fst (be (be_state w)
               (Post (''/api/documents/'' @ d @ ''/annotations'')
        (JObj [(''data'',
                JObj [(''type'', JStr ''annotations''),
                      (''attributes'',
                       JObj [(''type'', obj_get args ''type''), (''page'', obj_get args ''page''),
                             (''content'', obj_get args ''content'')])])]))) = Some body \<and>
         (js_get body ''data'' = None \<or> js_to_string (obj_get args ''type'') = None \<or>
          (\<exists>annotation. js_get body ''data'' = Some annotation \<and>
             (js_get annotation ''id'' = None \<or>
              (\<exists>i. js_get annotation ''id'' = Some i \<and> js_to_string i = None)))))"
      by (rule create_error_only_if [where be = be and w = w, OF d h [THEN conjunct1]
            h [THEN conjunct2]])
  qed
  from create_post_calls [OF d, of be w] a create_success_all [OF d, of be w] e
  show ?thesis by (intro conjI)
qed

theorem create_annotation_no_validation_witness:
  "js_to_string (obj_get untyped_arguments ''documentId'') = Some ''abc123'' \<and>
   calls (snd (call_tool demo_backend ''create_annotation'' (Some untyped_arguments) world0)) =
     [Post ''/api/documents/abc123/annotations''
        (JObj [(''data'',
                JObj [(''type'', JStr ''annotations''),
                      (''attributes'',
                       JObj [(''type'', JNum ''5''), (''page'', JStr ''first''),
                             (''content'', JNum ''1.5'')])])])] \<and>
   js_get created_body ''data'' = Some (JObj [(''id'', JStr ''ann42'')]) \<and>
   js_get (JObj [(''id'', JStr ''ann42'')]) ''id'' = Some (JStr ''ann42'') \<and>
   js_to_string (JStr ''ann42'') = Some ''ann42'' \<and>
   js_to_string (obj_get untyped_arguments ''type'') = Some ''5'' \<and>
   fst (call_tool demo_backend ''create_annotation'' (Some untyped_arguments) world0) =
     Inr \<lparr>result_content =
            [\<lparr>tc_type = ''text'',
               tc_text = ''Successfully created '' @ ''5'' @ '' annotation with ID: '' @
                         ''ann42''\<rparr>],
          isError = False\<rparr> \<and>
   fst (call_tool demo_backend ''create_annotation'' (Some odd_arguments) world0) =
     Inr \<lparr>result_content =
            [\<lparr>tc_type = ''text'',
               tc_text = ''Successfully created scribble annotation with ID: ann42''\<rparr>],
          isError = False\<rparr>"
proof -
  have d: "js_to_string (obj_get untyped_arguments ''documentId'') = Some ''abc123''"
    by code_simp
  have c: "calls (snd (call_tool demo_backend ''create_annotation'' (Some untyped_arguments)
                         world0)) =
     [Post ''/api/documents/abc123/annotations''
        (JObj [(''data'',
                JObj [(''type'', JStr ''annotations''),
                      (''attributes'',
                       JObj [(''type'', JNum ''5''), (''page'', JStr ''first''),
                             (''content'', JNum ''1.5'')])])])]"
    using create_annotation_no_validation [OF d, of demo_backend world0, THEN conjunct1]
    by (simp add: untyped_arguments_def obj_get_def world0_def)
  have b: "fst (demo_backend (be_state world0)
            (Post (''/api/documents/'' @ ''abc123'' @ ''/annotations'')
               (JObj [(''data'',
                       JObj [(''type'', JStr ''annotations''),
                             (''attributes'',
                              JObj [(''type'', obj_get untyped_arguments ''type''),
                                    (''page'', obj_get untyped_arguments ''page''),
                                    (''content'', obj_get untyped_arguments ''content'')])])]))) =
      Some created_body"
    by (simp add: demo_post)
  have g1: "js_get created_body ''data'' = Some (JObj [(''id'', JStr ''ann42'')])"
    by code_simp
  have g2: "js_get (JObj [(''id'', JStr ''ann42'')]) ''id'' = Some (JStr ''ann42'')"
    by code_simp
  have g3: "js_to_string (JStr ''ann42'') = Some ''ann42''" by simp
  have g4: "js_to_string (obj_get untyped_arguments ''type'') = Some ''5''" by code_simp
  have ok: "fst (call_tool demo_backend ''create_annotation'' (Some untyped_arguments) world0) =
     Inr \<lparr>result_content =
            [\<lparr>tc_type = ''text'',
               tc_text = ''Successfully created '' @ ''5'' @ '' annotation with ID: '' @
                         ''ann42''\<rparr>],
          isError = False\<rparr>"
    using create_annotation_no_validation [OF d, of demo_backend world0,
        THEN conjunct2, THEN conjunct2, THEN conjunct1,
        THEN spec [where x = created_body],
        THEN spec [where x = "JObj [(''id'', JStr ''ann42'')]"],
        THEN spec [where x = "JStr ''ann42''"], THEN spec [where x = "''ann42''"],
        THEN spec [where x = "''5''"], THEN mp,
        OF conjI [OF b conjI [OF g1 conjI [OF g2 conjI [OF g3 g4]]]]] .
  have o: "fst (call_tool demo_backend ''create_annotation'' (Some odd_arguments) world0) =
     Inr \<lparr>result_content =
            [\<lparr>tc_type = ''text'',
               tc_text = ''Successfully created scribble annotation with ID: ann42''\<rparr>],
          isError = False\<rparr>"
    by code_simp
  from d c g1 g2 g3 g4 ok o show ?thesis by (intro conjI)
qed

text \<open>
  C10 as stated does not hold on an object with an own \<^verbatim>\<open>toString\<close>: as the type it is
  sent to the backend, which accepts it, and the handler still reports a failure, since
  the success message cannot print it; as the document id it stops the handler before
  any call.
\<close>

theorem create_annotation_local_error:
  "calls (snd (call_tool demo_backend ''create_annotation'' (Some shadowed_type_arguments) world0)) =
     [Post ''/api/documents/abc123/annotations''
        (JObj [(''data'',
                JObj [(''type'', JStr ''annotations''),
                      (''attributes'',
                       JObj [(''type'', JObj [(''toString'', JNum ''1'')]), (''page'', JNum ''1''),
                             (''content'', JNull)])])])] \<and>
   fst (demo_backend ()
         (Post ''/api/documents/abc123/annotations''
            (JObj [(''data'',
                JObj [(''type'', JStr ''annotations''),
                      (''attributes'',
                       JObj [(''type'', JObj [(''toString'', JNum ''1'')]), (''page'', JNum ''1''),
                             (''content'', JNull)])])]))) = Some created_body \<and>
   fst (call_tool demo_backend ''create_annotation'' (Some shadowed_type_arguments) world0) =
     Inr \<lparr>result_content =
            [\<lparr>tc_type = ''text'',
               tc_text = ''Failed to create annotation. Please check your inputs and try again.''\<rparr>],
          isError = True\<rparr> \<and>
   calls (snd (call_tool demo_backend ''create_annotation'' (Some shadowed_id_arguments) world0)) = []"
  by code_simp

section \<open>The search result\<close>

lemma those_map_Some:
  "those (map f xs) = Some ys \<Longrightarrow> map f xs = map Some ys"
  by (induction xs arbitrary: ys) (auto split: option.splits)

lemma those_map_nth:
  assumes "those (map f xs) = Some ys"
  shows "length ys = length xs \<and> (\<forall>i<length xs. f (xs ! i) = Some (ys ! i))"
proof -
  from assms have m: "map f xs = map Some ys" by (rule those_map_Some)
  then have l: "length ys = length xs" by (metis length_map)
  have "\<forall>i<length xs. f (xs ! i) = Some (ys ! i)"
  proof (intro allI impI)
    fix i assume i: "i < length xs"
    then have "f (xs ! i) = map f xs ! i" by simp
    also have "\<dots> = map Some ys ! i" by (simp add: m)
    also have "\<dots> = Some (ys ! i)" using i l by simp
    finally show "f (xs ! i) = Some (ys ! i)" .
  qed
  with l show ?thesis by simp
qed

lemma js_map_Some:
  "js_map v f = Some ys \<Longrightarrow> \<exists>xs. v = JArr xs \<and> those (map f xs) = Some ys"
  by (cases v) auto

lemma js_lines_simps:
  "js_lines [] = []" "js_lines [a] = a" "js_lines (a # b # r) = a @ CHR 0x0A # js_lines (b # r)"
  by (simp_all add: js_lines_def)


lemma document_line_Some:
  "document_line doc = Some l \<Longrightarrow>
   \<exists>shown t s. display_name doc = Some shown \<and> js_to_string shown = Some t \<and>
     doc_id doc = Some s \<and> l = t @ '' (ID: '' @ s @ '')''"
  by (auto simp: document_line_def doc_id_def split: Option.bind_splits)









lemma those_map_build:
  "length ys = length xs \<Longrightarrow> \<forall>i<length xs. f (xs ! i) = Some (ys ! i) \<Longrightarrow>
   those (map f xs) = Some ys"
proof (induction xs arbitrary: ys)
  case Nil
  then show ?case by simp
next
  case (Cons x xs)
  from Cons.prems(1) obtain y ys' where ys: "ys = y # ys'" and l: "length ys' = length xs"
    by (cases ys) auto
  from Cons.prems(2) have "f ((x # xs) ! 0) = Some (ys ! 0)" by blast
  with ys have h: "f x = Some y" by simp
  have "\<forall>i<length xs. f (xs ! i) = Some (ys' ! i)"
  proof (intro allI impI)
    fix i assume "i < length xs"
    then have "Suc i < length (x # xs)" by simp
    with Cons.prems(2) have "f ((x # xs) ! Suc i) = Some (ys ! Suc i)" by blast
    with ys show "f (xs ! i) = Some (ys' ! i)" by simp
  qed
  with l have "those (map f xs) = Some ys'" by (rule Cons.IH)
  with h ys show ?case by simp
qed


lemma document_line_build:
  "doc_title doc = Some title \<Longrightarrow> doc_id doc = Some s \<Longrightarrow>
   (if js_truthy title then js_to_string title = Some t else t = ''Document '' @ s) \<Longrightarrow>
   document_line doc = Some (t @ '' (ID: '' @ s @ '')'')"
  by (auto simp: document_line_def display_name_def doc_title_def doc_id_def
      split: Option.bind_splits if_splits)






section \<open>Reading a document: calls and outcome\<close>

lemma read_try_calls:
  "calls (snd (read_try be uri w)) = calls w @ take 1 (read_requests (document_id uri)) \<or>
   calls (snd (read_try be uri w)) = calls w @ take 2 (read_requests (document_id uri)) \<or>
   calls (snd (read_try be uri w)) = calls w @ read_requests (document_id uri)"
  by (simp add: read_try_def Let_def api_request_eq read_requests_def split: option.splits)

lemma read_try_Some:
  "fst (read_try be uri w) = Some info \<Longrightarrow>
   calls (snd (read_try be uri w)) = calls w @ read_requests (document_id uri) \<and>
   (\<exists>b1 b2 b3 document layers annotations.
      responses be (be_state w) (read_requests (document_id uri)) = [Some b1, Some b2, Some b3] \<and>
      js_get b1 ''data'' = Some document \<and> js_get b2 ''data'' = Some layers \<and>
      js_get b3 ''data'' = Some annotations \<and>
      document_info document layers annotations = Some info)"
  by (auto simp add: read_try_def Let_def api_request_eq read_requests_def case_prod_beta
        split: option.splits)

lemma read_try_None:
  "None \<in> set (responses be (be_state w) (read_requests (document_id uri))) \<Longrightarrow>
   fst (read_try be uri w) = None"
  by (auto simp: read_try_def Let_def api_request_eq read_requests_def case_prod_beta
        split: option.splits)

lemma read_resource_fst:
  "fst (read_resource be stringify uri w) =
     (case fst (read_try be uri w) of
        None \<Rightarrow> Inl (Error ''Failed to read document'')
      | Some info \<Rightarrow>
          Inr \<lparr>contents = [\<lparr>rc_uri = uri, rc_mimeType = ''application/json'',
                              rc_text = stringify info\<rparr>]\<rparr>)"
  by (cases "read_try be uri w") (simp add: read_resource_def split: option.splits)

lemma read_resource_calls:
  "calls (snd (read_resource be stringify uri w)) = calls (snd (read_try be uri w))"
  by (cases "read_try be uri w")
     (simp add: read_resource_def console_error_def split: option.splits)

lemma read_resource_outcome:
  "(calls (snd (read_resource be stringify uri w)) =
      calls w @ take 1 (read_requests (document_id uri)) \<or>
    calls (snd (read_resource be stringify uri w)) =
      calls w @ take 2 (read_requests (document_id uri)) \<or>
    calls (snd (read_resource be stringify uri w)) =
      calls w @ read_requests (document_id uri)) \<and>
   (\<forall>r. fst (read_resource be stringify uri w) = Inr r \<longrightarrow>
      calls (snd (read_resource be stringify uri w)) =
        calls w @ read_requests (document_id uri) \<and>
      (\<exists>b1 b2 b3 document layers annotations info.
         responses be (be_state w) (read_requests (document_id uri)) =
           [Some b1, Some b2, Some b3] \<and>
         js_get b1 ''data'' = Some document \<and> js_get b2 ''data'' = Some layers \<and>
         js_get b3 ''data'' = Some annotations \<and>
         document_info document layers annotations = Some info \<and>
         r = \<lparr>contents = [\<lparr>rc_uri = uri, rc_mimeType = ''application/json'',
                              rc_text = stringify info\<rparr>]\<rparr>)) \<and>
   (None \<in> set (responses be (be_state w) (read_requests (document_id uri))) \<longrightarrow>
      fst (read_resource be stringify uri w) = Inl (Error ''Failed to read document'')) \<and>
   (\<forall>e. fst (read_resource be stringify uri w) = Inl e \<longrightarrow>
      e = Error ''Failed to read document'')"
proof (intro conjI allI impI)
  show "calls (snd (read_resource be stringify uri w)) =
      calls w @ take 1 (read_requests (document_id uri)) \<or>
    calls (snd (read_resource be stringify uri w)) =
      calls w @ take 2 (read_requests (document_id uri)) \<or>
    calls (snd (read_resource be stringify uri w)) =
      calls w @ read_requests (document_id uri)"
    unfolding read_resource_calls by (rule read_try_calls)
next
  fix r assume r: "fst (read_resource be stringify uri w) = Inr r"
  then obtain info where i: "fst (read_try be uri w) = Some info"
    and ri: "r = \<lparr>contents = [\<lparr>rc_uri = uri, rc_mimeType = ''application/json'',
                              rc_text = stringify info\<rparr>]\<rparr>"
    by (auto simp: read_resource_fst split: option.splits)
  from read_try_Some [OF i]
  show "calls (snd (read_resource be stringify uri w)) =
        calls w @ read_requests (document_id uri)"
    unfolding read_resource_calls by simp
  from read_try_Some [OF i] ri
  show "\<exists>b1 b2 b3 document layers annotations info.
         responses be (be_state w) (read_requests (document_id uri)) =
           [Some b1, Some b2, Some b3] \<and>
         js_get b1 ''data'' = Some document \<and> js_get b2 ''data'' = Some layers \<and>
         js_get b3 ''data'' = Some annotations \<and>
         document_info document layers annotations = Some info \<and>
         r = \<lparr>contents = [\<lparr>rc_uri = uri, rc_mimeType = ''application/json'',
                              rc_text = stringify info\<rparr>]\<rparr>"
    by blast
next
  assume "None \<in> set (responses be (be_state w) (read_requests (document_id uri)))"
  then have "fst (read_try be uri w) = None" by (rule read_try_None)
  then show "fst (read_resource be stringify uri w) = Inl (Error ''Failed to read document'')"
    by (simp add: read_resource_fst)
next
  fix e assume "fst (read_resource be stringify uri w) = Inl e"
  then show "e = Error ''Failed to read document''"
    by (auto simp: read_resource_fst split: option.splits)
qed

lemma responses_three:
  "responses be s [r1, r2, r3] =
     [fst (be s r1), fst (be (snd (be s r1)) r2), fst (be (snd (be (snd (be s r1)) r2)) r3)]"
  by (simp add: case_prod_beta)

lemma read_try_unfold:
  "read_try be uri w =
     (let r1 = Get (''/api/documents/'' @ document_id uri) JUndefined;
          r2 = Get (''/api/documents/'' @ document_id uri @ ''/layers'') JUndefined;
          r3 = Get (''/api/documents/'' @ document_id uri @ ''/annotations'') JUndefined;
          s = be_state w;
          a1 = fst (be s r1); s1 = snd (be s r1);
          a2 = fst (be s1 r2); s2 = snd (be s1 r2);
          a3 = fst (be s2 r3); s3 = snd (be s2 r3)
      in if call_failed a1 then (None, w\<lparr>be_state := s1, calls := calls w @ [r1]\<rparr>)
         else if call_failed a2 then (None, w\<lparr>be_state := s2, calls := calls w @ [r1, r2]\<rparr>)
         else if call_failed a3 then (None, w\<lparr>be_state := s3, calls := calls w @ [r1, r2, r3]\<rparr>)
         else (document_info (the (js_get (the a1) ''data'')) (the (js_get (the a2) ''data''))
                 (the (js_get (the a3) ''data'')),
               w\<lparr>be_state := s3, calls := calls w @ [r1, r2, r3]\<rparr>))"
  by (simp add: read_try_def Let_def api_request_eq call_failed_def split: option.splits)

lemma read_resource_first_failure:
  "(\<exists>a1 a2 a3. responses be (be_state w) (read_requests (document_id uri)) = [a1, a2, a3]) \<and>
   (\<forall>a1 a2 a3.
      responses be (be_state w) (read_requests (document_id uri)) = [a1, a2, a3] \<longrightarrow>
      (call_failed a1 \<longrightarrow>
         calls (snd (read_resource be stringify uri w)) =
           calls w @ take 1 (read_requests (document_id uri))) \<and>
      (\<not> call_failed a1 \<and> call_failed a2 \<longrightarrow>
         calls (snd (read_resource be stringify uri w)) =
           calls w @ take 2 (read_requests (document_id uri))) \<and>
      (\<not> call_failed a1 \<and> \<not> call_failed a2 \<longrightarrow>
         calls (snd (read_resource be stringify uri w)) =
           calls w @ read_requests (document_id uri)) \<and>
      (call_failed a1 \<or> call_failed a2 \<or> call_failed a3 \<longrightarrow>
         fst (read_resource be stringify uri w) = Inl (Error ''Failed to read document'')) \<and>
      (\<forall>b1 b2 b3 document layers annotations info.
         a1 = Some b1 \<and> a2 = Some b2 \<and> a3 = Some b3 \<and>
         js_get b1 ''data'' = Some document \<and> js_get b2 ''data'' = Some layers \<and>
         js_get b3 ''data'' = Some annotations \<and>
         document_info document layers annotations = Some info \<longrightarrow>
         fst (read_resource be stringify uri w) =
           Inr \<lparr>contents = [\<lparr>rc_uri = uri, rc_mimeType = ''application/json'',
                                rc_text = stringify info\<rparr>]\<rparr>))"
proof (intro conjI allI impI)
  show "\<exists>a1 a2 a3. responses be (be_state w) (read_requests (document_id uri)) = [a1, a2, a3]"
    unfolding read_requests_def responses_three by blast
next
  fix a1 a2 a3
  assume r: "responses be (be_state w) (read_requests (document_id uri)) = [a1, a2, a3]"
  assume "call_failed a1"
  with r show "calls (snd (read_resource be stringify uri w)) =
           calls w @ take 1 (read_requests (document_id uri))"
    unfolding read_resource_calls read_requests_def responses_three
    by (simp add: read_try_unfold Let_def)
next
  fix a1 a2 a3
  assume r: "responses be (be_state w) (read_requests (document_id uri)) = [a1, a2, a3]"
  assume "\<not> call_failed a1 \<and> call_failed a2"
  with r show "calls (snd (read_resource be stringify uri w)) =
           calls w @ take 2 (read_requests (document_id uri))"
    unfolding read_resource_calls read_requests_def responses_three
    by (simp add: read_try_unfold Let_def)
next
  fix a1 a2 a3
  assume r: "responses be (be_state w) (read_requests (document_id uri)) = [a1, a2, a3]"
  assume "\<not> call_failed a1 \<and> \<not> call_failed a2"
  with r show "calls (snd (read_resource be stringify uri w)) =
           calls w @ read_requests (document_id uri)"
    unfolding read_resource_calls read_requests_def responses_three
    by (simp add: read_try_unfold Let_def)
next
  fix a1 a2 a3
  assume r: "responses be (be_state w) (read_requests (document_id uri)) = [a1, a2, a3]"
  assume "call_failed a1 \<or> call_failed a2 \<or> call_failed a3"
  with r have "fst (read_try be uri w) = None"
    unfolding read_requests_def responses_three
    by (auto simp: read_try_unfold Let_def)
  then show "fst (read_resource be stringify uri w) = Inl (Error ''Failed to read document'')"
    by (simp add: read_resource_fst)
next
  fix a1 a2 a3 b1 b2 b3 document layers annotations info
  assume r: "responses be (be_state w) (read_requests (document_id uri)) = [a1, a2, a3]"
  assume "a1 = Some b1 \<and> a2 = Some b2 \<and> a3 = Some b3 \<and>
         js_get b1 ''data'' = Some document \<and> js_get b2 ''data'' = Some layers \<and>
         js_get b3 ''data'' = Some annotations \<and>
         document_info document layers annotations = Some info"
  with r have "fst (read_try be uri w) = Some info"
    unfolding read_requests_def responses_three
    by (auto simp: read_try_unfold Let_def call_failed_def)
  then show "fst (read_resource be stringify uri w) =
           Inr \<lparr>contents = [\<lparr>rc_uri = uri, rc_mimeType = ''application/json'',
                                rc_text = stringify info\<rparr>]\<rparr>"
    by (simp add: read_resource_fst)
qed

text \<open>
  C1 (corrected form): a read issues the requests for the document, its layers and its
  annotations in this order and stops at the first that fails: it issues one call when
  the first fails, two when the first is answered and the second fails, and all three
  otherwise. When it returns a result it has issued all three, all three were answered,
  and the text is the serialisation of the object compiled from the three answers. When
  one of the three fails the read throws \<^verbatim>\<open>Failed to read document\<close>, and it throws no
  other error.
\<close>

theorem read_resource_stops_at_failure:
  "((calls (snd (read_resource be stringify uri w)) =
      calls w @ take 1 (read_requests (document_id uri)) \<or>
    calls (snd (read_resource be stringify uri w)) =
      calls w @ take 2 (read_requests (document_id uri)) \<or>
    calls (snd (read_resource be stringify uri w)) =
      calls w @ read_requests (document_id uri)) \<and>
   (\<forall>r. fst (read_resource be stringify uri w) = Inr r \<longrightarrow>
      calls (snd (read_resource be stringify uri w)) =
        calls w @ read_requests (document_id uri) \<and>
      (\<exists>b1 b2 b3 document layers annotations info.
         responses be (be_state w) (read_requests (document_id uri)) =
           [Some b1, Some b2, Some b3] \<and>
         js_get b1 ''data'' = Some document \<and> js_get b2 ''data'' = Some layers \<and>
         js_get b3 ''data'' = Some annotations \<and>
         document_info document layers annotations = Some info \<and>
         r = \<lparr>contents = [\<lparr>rc_uri = uri, rc_mimeType = ''application/json'',
                              rc_text = stringify info\<rparr>]\<rparr>)) \<and>
   (None \<in> set (responses be (be_state w) (read_requests (document_id uri))) \<longrightarrow>
      fst (read_resource be stringify uri w) = Inl (Error ''Failed to read document'')) \<and>
   (\<forall>e. fst (read_resource be stringify uri w) = Inl e \<longrightarrow>
      e = Error ''Failed to read document'')) \<and>
   ((\<exists>a1 a2 a3. responses be (be_state w) (read_requests (document_id uri)) = [a1, a2, a3]) \<and>
   (\<forall>a1 a2 a3.
      responses be (be_state w) (read_requests (document_id uri)) = [a1, a2, a3] \<longrightarrow>
      (call_failed a1 \<longrightarrow>
         calls (snd (read_resource be stringify uri w)) =
           calls w @ take 1 (read_requests (document_id uri))) \<and>
      (\<not> call_failed a1 \<and> call_failed a2 \<longrightarrow>
         calls (snd (read_resource be stringify uri w)) =
           calls w @ take 2 (read_requests (document_id uri))) \<and>
      (\<not> call_failed a1 \<and> \<not> call_failed a2 \<longrightarrow>
         calls (snd (read_resource be stringify uri w)) =
           calls w @ read_requests (document_id uri)) \<and>
      (call_failed a1 \<or> call_failed a2 \<or> call_failed a3 \<longrightarrow>
         fst (read_resource be stringify uri w) = Inl (Error ''Failed to read document'')) \<and>
      (\<forall>b1 b2 b3 document layers annotations info.
         a1 = Some b1 \<and> a2 = Some b2 \<and> a3 = Some b3 \<and>
         js_get b1 ''data'' = Some document \<and> js_get b2 ''data'' = Some layers \<and>
         js_get b3 ''data'' = Some annotations \<and>
         document_info document layers annotations = Some info \<longrightarrow>
         fst (read_resource be stringify uri w) =
           Inr \<lparr>contents = [\<lparr>rc_uri = uri, rc_mimeType = ''application/json'',
                                rc_text = stringify info\<rparr>]\<rparr>)))"
  by (rule conjI [OF read_resource_outcome read_resource_first_failure])

text \<open>
  C1 as stated does not hold: when the backend rejects the first request the read has issued
  one call, not three, and two when the second is rejected.
\<close>

theorem read_resource_one_call:
  "calls (snd (read_resource backend_down keys_only ''nutrient-document-engine:///abc123'' world0)) =
     [Get ''/api/documents/abc123'' JUndefined] \<and>
   length (calls (snd (read_resource backend_down keys_only
                         ''nutrient-document-engine:///abc123'' world0))) \<noteq> 3 \<and>
   calls (snd (read_resource flaky_backend keys_only
                 ''nutrient-document-engine:///abc123'' (flaky_world 1))) =
     [Get ''/api/documents/abc123'' JUndefined, Get ''/api/documents/abc123/layers'' JUndefined]"
  by code_simp

theorem read_resource_stops_at_failure_witness:
  "fst (read_resource demo_backend keys_only ''nutrient-document-engine:///abc123'' world0) =
     Inr \<lparr>contents = [\<lparr>rc_uri = ''nutrient-document-engine:///abc123'',
                          rc_mimeType = ''application/json'',
                          rc_text = ''id;title;pageCount;layers;annotations;''\<rparr>]\<rparr> \<and>
   calls (snd (read_resource demo_backend keys_only ''nutrient-document-engine:///abc123'' world0)) =
     [Get ''/api/documents/abc123'' JUndefined, Get ''/api/documents/abc123/layers'' JUndefined,
      Get ''/api/documents/abc123/annotations'' JUndefined] \<and>
   None \<in> set (responses flaky_backend (be_state (flaky_world 2))
                  (read_requests (document_id ''nutrient-document-engine:///abc123''))) \<and>
   fst (read_resource flaky_backend keys_only ''nutrient-document-engine:///abc123''
          (flaky_world 2)) = Inl (Error ''Failed to read document'') \<and>
   responses flaky_backend (be_state (flaky_world 1))
      (read_requests (document_id ''nutrient-document-engine:///abc123'')) =
     [Some (JObj [(''data'', invoice)]), None, None] \<and>
   \<not> call_failed (Some (JObj [(''data'', invoice)])) \<and> call_failed None \<and>
   calls (snd (read_resource flaky_backend keys_only ''nutrient-document-engine:///abc123''
                 (flaky_world 1))) =
     calls (flaky_world 1) @ take 2 (read_requests (document_id ''nutrient-document-engine:///abc123'')) \<and>
   fst (read_resource flaky_backend keys_only ''nutrient-document-engine:///abc123''
          (flaky_world 1)) = Inl (Error ''Failed to read document'') \<and>
   responses null_backend (be_state world0)
      (read_requests (document_id ''nutrient-document-engine:///abc123'')) =
     [Some JNull, Some JNull, Some JNull] \<and>
   call_failed (Some JNull) \<and>
   calls (snd (read_resource null_backend keys_only ''nutrient-document-engine:///abc123'' world0)) =
     calls world0 @ take 1 (read_requests (document_id ''nutrient-document-engine:///abc123''))"
proof -
  have a: "fst (read_resource demo_backend keys_only ''nutrient-document-engine:///abc123'' world0) =
     Inr \<lparr>contents = [\<lparr>rc_uri = ''nutrient-document-engine:///abc123'',
                          rc_mimeType = ''application/json'',
                          rc_text = ''id;title;pageCount;layers;annotations;''\<rparr>]\<rparr>"
    by code_simp
  have i: "document_id ''nutrient-document-engine:///abc123'' = ''abc123''"
    by code_simp
  have r: "responses flaky_backend (be_state (flaky_world 2)) (read_requests ''abc123'') =
      [Some (JObj [(''data'', invoice)]), Some layers_body, None]"
    by code_simp
  have n: "None \<in> set (responses flaky_backend (be_state (flaky_world 2))
                  (read_requests (document_id ''nutrient-document-engine:///abc123'')))"
    unfolding i r by simp
  have c: "calls (snd (read_resource demo_backend keys_only
                         ''nutrient-document-engine:///abc123'' world0)) =
      calls world0 @ read_requests (document_id ''nutrient-document-engine:///abc123'')"
    using read_resource_stops_at_failure [of demo_backend keys_only
        "''nutrient-document-engine:///abc123''" world0,
        THEN conjunct1, THEN conjunct2, THEN conjunct1, rule_format, OF a, THEN conjunct1] .
  have f: "fst (read_resource flaky_backend keys_only ''nutrient-document-engine:///abc123''
          (flaky_world 2)) = Inl (Error ''Failed to read document'')"
    using read_resource_stops_at_failure [of flaky_backend keys_only
        "''nutrient-document-engine:///abc123''" "flaky_world 2",
        THEN conjunct1, THEN conjunct2, THEN conjunct2, THEN conjunct1, rule_format, OF n] .
  have c': "calls (snd (read_resource demo_backend keys_only
                         ''nutrient-document-engine:///abc123'' world0)) =
     [Get ''/api/documents/abc123'' JUndefined, Get ''/api/documents/abc123/layers'' JUndefined,
      Get ''/api/documents/abc123/annotations'' JUndefined]"
    unfolding c i by (simp add: read_requests_def world0_def)
  have r1: "responses flaky_backend (be_state (flaky_world 1))
      (read_requests (document_id ''nutrient-document-engine:///abc123'')) =
     [Some (JObj [(''data'', invoice)]), None, None]"
    by code_simp
  have ok: "\<not> call_failed (Some (JObj [(''data'', invoice)]))" by code_simp
  have ko: "call_failed None" by code_simp
  note t1 = read_resource_stops_at_failure [of flaky_backend keys_only
        "''nutrient-document-engine:///abc123''" "flaky_world 1",
        THEN conjunct2, THEN conjunct2, rule_format, OF r1]
  have two: "calls (snd (read_resource flaky_backend keys_only
                 ''nutrient-document-engine:///abc123'' (flaky_world 1))) =
     calls (flaky_world 1) @
     take 2 (read_requests (document_id ''nutrient-document-engine:///abc123''))"
    using t1 [THEN conjunct2, THEN conjunct1, THEN mp, OF conjI [OF ok ko]] .
  have two_error: "fst (read_resource flaky_backend keys_only ''nutrient-document-engine:///abc123''
          (flaky_world 1)) = Inl (Error ''Failed to read document'')"
    using t1 [THEN conjunct2, THEN conjunct2, THEN conjunct2, THEN conjunct1, THEN mp,
        OF disjI2 [OF disjI1 [OF ko]]] .
  have r0: "responses null_backend (be_state world0)
      (read_requests (document_id ''nutrient-document-engine:///abc123'')) =
     [Some JNull, Some JNull, Some JNull]"
    by code_simp
  have kn: "call_failed (Some JNull)" by code_simp
  have one: "calls (snd (read_resource null_backend keys_only
                 ''nutrient-document-engine:///abc123'' world0)) =
     calls world0 @ take 1 (read_requests (document_id ''nutrient-document-engine:///abc123''))"
    using read_resource_stops_at_failure [of null_backend keys_only
        "''nutrient-document-engine:///abc123''" world0,
        THEN conjunct2, THEN conjunct2, rule_format, OF r0, THEN conjunct1, THEN mp, OF kn] .
  from a c' n f r1 ok ko two two_error r0 kn one show ?thesis by (intro conjI)
qed







section \<open>Listing documents: cursor and names\<close>

lemma list_try_calls:
  "calls (snd (list_try be cursor w)) = calls w @ [Get ''/api/documents'' (list_params cursor)]"
  by (simp add: list_try_def api_request_eq split: option.splits)

lemma list_try_fst:
  "fst (list_try be cursor w) =
     (case fst (be (be_state w) (Get ''/api/documents'' (list_params cursor))) of
        None \<Rightarrow> None | Some body \<Rightarrow> list_response body)"
  by (simp add: list_try_def api_request_eq split: option.splits)

lemma list_resources_calls:
  "calls (snd (list_resources be cursor w)) =
     calls w @ [Get ''/api/documents'' (list_params cursor)]"
  using list_try_calls [of be cursor w]
  by (cases "list_try be cursor w")
     (simp add: list_resources_def console_error_def split: option.splits)

lemma list_resources_fst:
  "fst (list_resources be cursor w) =
     (case fst (list_try be cursor w) of
        None \<Rightarrow> Inl (Error ''Failed to list documents'')
      | Some r \<Rightarrow> Inr r)"
  by (cases "list_try be cursor w") (simp add: list_resources_def split: option.splits)

lemma list_resources_Inr:
  "fst (list_resources be cursor w) = Inr r \<Longrightarrow>
   \<exists>body. fst (be (be_state w) (Get ''/api/documents'' (list_params cursor))) = Some body \<and>
     list_response body = Some r"
  by (auto simp: list_resources_fst list_try_fst split: option.splits)

lemma list_response_Some:
  "list_response body = Some r \<Longrightarrow>
   \<exists>docs meta pagination next_page.
     js_get body ''data'' = Some (JArr docs) \<and>
     those (map document_resource docs) = Some (resources r) \<and>
     js_get body ''meta'' = Some meta \<and>
     js_get meta ''pagination'' = Some pagination \<and>
     js_get pagination ''next_page'' = Some next_page \<and>
     nextCursor r = (if js_truthy next_page then next_page else JUndefined)"
  by (auto simp: list_response_def split: Option.bind_splits dest!: js_map_Some)

lemma list_cursor_general:
  "(c \<noteq> [] \<longrightarrow>
      calls (snd (list_resources be (Some c) w)) =
        calls w @ [Get ''/api/documents'' (JObj [(''page'', JStr c)])]) \<and>
   calls (snd (list_resources be (Some []) w)) = calls w @ [Get ''/api/documents'' (JObj [])] \<and>
   calls (snd (list_resources be None w)) = calls w @ [Get ''/api/documents'' (JObj [])] \<and>
   (\<forall>r. fst (list_resources be cursor w) = Inr r \<longrightarrow>
      (\<exists>body meta pagination next_page.
         fst (be (be_state w) (Get ''/api/documents'' (list_params cursor))) = Some body \<and>
         js_get body ''meta'' = Some meta \<and>
         js_get meta ''pagination'' = Some pagination \<and>
         js_get pagination ''next_page'' = Some next_page \<and>
         nextCursor r = (if js_truthy next_page then next_page else JUndefined)))"
proof (intro conjI allI impI)
  assume "c \<noteq> []"
  then show "calls (snd (list_resources be (Some c) w)) =
        calls w @ [Get ''/api/documents'' (JObj [(''page'', JStr c)])]"
    by (simp add: list_resources_calls list_params_def)
next
  show "calls (snd (list_resources be (Some []) w)) = calls w @ [Get ''/api/documents'' (JObj [])]"
    by (simp add: list_resources_calls list_params_def)
next
  show "calls (snd (list_resources be None w)) = calls w @ [Get ''/api/documents'' (JObj [])]"
    by (simp add: list_resources_calls list_params_def)
next
  fix r assume "fst (list_resources be cursor w) = Inr r"
  from list_resources_Inr [OF this] obtain body where
    b: "fst (be (be_state w) (Get ''/api/documents'' (list_params cursor))) = Some body"
    and l: "list_response body = Some r" by blast
  from list_response_Some [OF l] b
  show "\<exists>body meta pagination next_page.
         fst (be (be_state w) (Get ''/api/documents'' (list_params cursor))) = Some body \<and>
         js_get body ''meta'' = Some meta \<and>
         js_get meta ''pagination'' = Some pagination \<and>
         js_get pagination ''next_page'' = Some next_page \<and>
         nextCursor r = (if js_truthy next_page then next_page else JUndefined)"
    by blast
qed

lemma js_truthy_falsy:
  "js_truthy v \<longleftrightarrow> v \<notin> {JUndefined, JNull, JBool False, JNum ''0'', JNum ''NaN'', JStr []}"
  by (cases v) auto

lemma list_response_build:
  "js_get body ''data'' = Some (JArr docs) \<Longrightarrow> those (map document_resource docs) = Some rs \<Longrightarrow>
   js_get body ''meta'' = Some meta \<Longrightarrow> js_get meta ''pagination'' = Some pg \<Longrightarrow>
   js_get pg ''next_page'' = Some np \<Longrightarrow>
   list_response body =
     Some \<lparr>resources = rs, nextCursor = (if js_truthy np then np else JUndefined)\<rparr>"
  by (simp add: list_response_def)

lemma list_resources_build:
  "fst (be (be_state w) (Get ''/api/documents'' (list_params cursor))) = Some body \<Longrightarrow>
   list_response body = Some r \<Longrightarrow> fst (list_resources be cursor w) = Inr r"
  by (simp add: list_resources_fst list_try_fst)

lemma next_page_read:
  "(if js_truthy (obj_get p ''next_page'') then obj_get p ''next_page'' else JUndefined) =
     (case map_of p ''next_page'' of
                        None \<Rightarrow> JUndefined
                      | Some np \<Rightarrow>
                          if np \<in> {JUndefined, JNull, JBool False, JNum ''0'', JNum ''NaN'', JStr []}
                          then JUndefined else np)"
  by (simp add: obj_get_def js_truthy_falsy split: option.splits)

lemma list_cursor_produced:
  "\<forall>body docs rs meta p.
      fst (be (be_state w) (Get ''/api/documents'' (list_params cursor))) = Some body \<and>
      js_get body ''data'' = Some (JArr docs) \<and>
      those (map document_resource docs) = Some rs \<and>
      js_get body ''meta'' = Some meta \<and>
      js_get meta ''pagination'' = Some (JObj p) \<longrightarrow>
      fst (list_resources be cursor w) =
        Inr \<lparr>resources = rs, nextCursor = (case map_of p ''next_page'' of
                        None \<Rightarrow> JUndefined
                      | Some np \<Rightarrow>
                          if np \<in> {JUndefined, JNull, JBool False, JNum ''0'', JNum ''NaN'', JStr []}
                          then JUndefined else np)\<rparr>"
proof (intro allI impI)
  fix body docs rs meta p
  assume "fst (be (be_state w) (Get ''/api/documents'' (list_params cursor))) = Some body \<and>
      js_get body ''data'' = Some (JArr docs) \<and>
      those (map document_resource docs) = Some rs \<and>
      js_get body ''meta'' = Some meta \<and>
      js_get meta ''pagination'' = Some (JObj p)"
  then have b: "fst (be (be_state w) (Get ''/api/documents'' (list_params cursor))) = Some body"
    and d: "js_get body ''data'' = Some (JArr docs)"
    and t: "those (map document_resource docs) = Some rs"
    and m: "js_get body ''meta'' = Some meta"
    and g: "js_get meta ''pagination'' = Some (JObj p)"
    by blast+
  have n: "js_get (JObj p) ''next_page'' = Some (obj_get p ''next_page'')" by simp
  from list_resources_build [where be = be and w = w, OF b list_response_build [OF d t m g n]]
  show "fst (list_resources be cursor w) =
        Inr \<lparr>resources = rs, nextCursor = (case map_of p ''next_page'' of
                        None \<Rightarrow> JUndefined
                      | Some np \<Rightarrow>
                          if np \<in> {JUndefined, JNull, JBool False, JNum ''0'', JNum ''NaN'', JStr []}
                          then JUndefined else np)\<rparr>"
    unfolding next_page_read .
qed

text \<open>
  C2 (corrected form): a cursor that is not the empty string is sent as it is as the
  \<^verbatim>\<open>page\<close> parameter of the listing call; without a cursor, and with the empty string,
  the call has no \<^verbatim>\<open>page\<close> parameter. A listing that returns has read \<^verbatim>\<open>next_page\<close> from
  the pagination metadata of the answer, and its \<^verbatim>\<open>nextCursor\<close> is that value when it is
  truthy and undefined otherwise. The listing does return whenever the answer holds an
  array of readable documents and a pagination object: its \<^verbatim>\<open>nextCursor\<close> is undefined
  when the object has no \<^verbatim>\<open>next_page\<close> and when \<^verbatim>\<open>next_page\<close> is \<^verbatim>\<open>null\<close>, \<^verbatim>\<open>false\<close>, \<^verbatim>\<open>0\<close>,
  \<^verbatim>\<open>NaN\<close> or the empty string, and is \<^verbatim>\<open>next_page\<close> itself in every other case.
\<close>

theorem list_resources_cursor:
  "(c \<noteq> [] \<longrightarrow>
      calls (snd (list_resources be (Some c) w)) =
        calls w @ [Get ''/api/documents'' (JObj [(''page'', JStr c)])]) \<and>
   calls (snd (list_resources be (Some []) w)) = calls w @ [Get ''/api/documents'' (JObj [])] \<and>
   calls (snd (list_resources be None w)) = calls w @ [Get ''/api/documents'' (JObj [])] \<and>
   (\<forall>r. fst (list_resources be cursor w) = Inr r \<longrightarrow>
      (\<exists>body meta pagination next_page.
         fst (be (be_state w) (Get ''/api/documents'' (list_params cursor))) = Some body \<and>
         js_get body ''meta'' = Some meta \<and>
         js_get meta ''pagination'' = Some pagination \<and>
         js_get pagination ''next_page'' = Some next_page \<and>
         nextCursor r = (if js_truthy next_page then next_page else JUndefined))) \<and>
   (\<forall>body docs rs meta p.
      fst (be (be_state w) (Get ''/api/documents'' (list_params cursor))) = Some body \<and>
      js_get body ''data'' = Some (JArr docs) \<and>
      those (map document_resource docs) = Some rs \<and>
      js_get body ''meta'' = Some meta \<and>
      js_get meta ''pagination'' = Some (JObj p) \<longrightarrow>
      fst (list_resources be cursor w) =
        Inr \<lparr>resources = rs, nextCursor = (case map_of p ''next_page'' of
                        None \<Rightarrow> JUndefined
                      | Some np \<Rightarrow>
                          if np \<in> {JUndefined, JNull, JBool False, JNum ''0'', JNum ''NaN'', JStr []}
                          then JUndefined else np)\<rparr>)"
  by (rule conjI [OF list_cursor_general [THEN conjunct1]
        conjI [OF list_cursor_general [THEN conjunct2, THEN conjunct1]
          conjI [OF list_cursor_general [THEN conjunct2, THEN conjunct2, THEN conjunct1]
            conjI [OF list_cursor_general [THEN conjunct2, THEN conjunct2, THEN conjunct2]
              list_cursor_produced]]]])

text \<open>
  C2 as stated does not hold on the empty cursor: it is provided, and the call goes out without
  a \<^verbatim>\<open>page\<close> parameter.
\<close>

theorem list_resources_empty_cursor:
  "calls (snd (list_resources demo_backend (Some []) world0)) =
     [Get ''/api/documents'' (JObj [])] \<and>
   calls (snd (list_resources demo_backend (Some []) world0)) \<noteq>
     [Get ''/api/documents'' (JObj [(''page'', JStr [])])]"
  by code_simp

theorem list_resources_cursor_witness:
  "''3'' \<noteq> [] \<and>
   calls (snd (list_resources demo_backend (Some ''3'') world0)) =
     [Get ''/api/documents'' (JObj [(''page'', JStr ''3'')])] \<and>
   fst (list_resources demo_backend (Some ''3'') world0) = Inr demo_listing \<and>
   nextCursor demo_listing = JStr ''2'' \<and>
   (\<exists>body meta pagination next_page.
      fst (demo_backend (be_state world0) (Get ''/api/documents'' (list_params (Some ''3'')))) =
        Some body \<and>
      js_get body ''meta'' = Some meta \<and>
      js_get meta ''pagination'' = Some pagination \<and>
      js_get pagination ''next_page'' = Some next_page \<and>
      nextCursor demo_listing = (if js_truthy next_page then next_page else JUndefined)) \<and>
   fst (list_resources last_page_backend None world0) =
     Inr \<lparr>resources =
            [\<lparr>res_uri = ''nutrient-document-engine:///d7'', res_mimeType = ''application/pdf'',
               res_name = JStr ''Document d7''\<rparr>],
          nextCursor = JUndefined\<rparr> \<and>
   (fst ((listing_backend (JObj [])) (be_state world0) (Get ''/api/documents'' (list_params None))) = Some (JObj [(''data'', JArr [invoice, untitled, no_title, empty_title]),
              (''meta'', JObj [(''pagination'', JObj [])])]) \<and>
      js_get (JObj [(''data'', JArr [invoice, untitled, no_title, empty_title]),
              (''meta'', JObj [(''pagination'', JObj [])])]) ''data'' = Some (JArr [invoice, untitled, no_title, empty_title]) \<and>
      those (map document_resource [invoice, untitled, no_title, empty_title]) = Some four_resources \<and>
      js_get (JObj [(''data'', JArr [invoice, untitled, no_title, empty_title]),
              (''meta'', JObj [(''pagination'', JObj [])])]) ''meta'' = Some (JObj [(''pagination'', JObj [])]) \<and>
      js_get (JObj [(''pagination'', JObj [])]) ''pagination'' = Some (JObj [])) \<and>
   fst (list_resources (listing_backend (JObj [])) None world0) =
        Inr \<lparr>resources = four_resources, nextCursor = JUndefined\<rparr> \<and>
   fst (list_resources (listing_backend (JObj [(''next_page'', JStr [])])) None world0) =
        Inr \<lparr>resources = four_resources, nextCursor = JUndefined\<rparr> \<and>
   (fst ((listing_backend (JObj [(''next_page'', JNum ''0'')])) (be_state world0) (Get ''/api/documents'' (list_params None))) = Some (JObj [(''data'', JArr [invoice, untitled, no_title, empty_title]),
              (''meta'', JObj [(''pagination'', JObj [(''next_page'', JNum ''0'')])])]) \<and>
      js_get (JObj [(''data'', JArr [invoice, untitled, no_title, empty_title]),
              (''meta'', JObj [(''pagination'', JObj [(''next_page'', JNum ''0'')])])]) ''data'' = Some (JArr [invoice, untitled, no_title, empty_title]) \<and>
      those (map document_resource [invoice, untitled, no_title, empty_title]) = Some four_resources \<and>
      js_get (JObj [(''data'', JArr [invoice, untitled, no_title, empty_title]),
              (''meta'', JObj [(''pagination'', JObj [(''next_page'', JNum ''0'')])])]) ''meta'' = Some (JObj [(''pagination'', JObj [(''next_page'', JNum ''0'')])]) \<and>
      js_get (JObj [(''pagination'', JObj [(''next_page'', JNum ''0'')])]) ''pagination'' = Some (JObj [(''next_page'', JNum ''0'')])) \<and>
   fst (list_resources (listing_backend (JObj [(''next_page'', JNum ''0'')])) None world0) =
        Inr \<lparr>resources = four_resources, nextCursor = JUndefined\<rparr> \<and>
   fst (list_resources (listing_backend (JObj [(''next_page'', JBool False)])) None world0) =
        Inr \<lparr>resources = four_resources, nextCursor = JUndefined\<rparr> \<and>
   fst (list_resources (listing_backend (JObj [(''next_page'', JNull)])) None world0) =
        Inr \<lparr>resources = four_resources, nextCursor = JUndefined\<rparr> \<and>
   fst (list_resources (listing_backend (JObj [(''next_page'', JNum ''2'')])) None world0) =
        Inr \<lparr>resources = four_resources, nextCursor = JNum ''2''\<rparr> \<and>
   fst (list_resources (listing_backend (JObj [(''next_page'', JStr ''2'')])) None world0) =
        Inr \<lparr>resources = four_resources, nextCursor = JStr ''2''\<rparr>"
proof -
  have n: "''3'' \<noteq> []" by simp
  have c: "calls (snd (list_resources demo_backend (Some ''3'') world0)) =
      calls world0 @ [Get ''/api/documents'' (JObj [(''page'', JStr ''3'')])]"
    using list_resources_cursor [where c = "''3''" and be = demo_backend and w = world0 and cursor = None,
        THEN conjunct1, THEN mp, OF n] .
  have a: "fst (list_resources demo_backend (Some ''3'') world0) = Inr demo_listing"
    by code_simp
  have m: "nextCursor demo_listing = JStr ''2''" by (simp add: demo_listing_def)
  note e = list_resources_cursor [where c = "''3''" and be = demo_backend and w = world0
        and cursor = "Some ''3''",
        THEN conjunct2, THEN conjunct2, THEN conjunct2, THEN conjunct1, rule_format, OF a]
  have b: "fst (list_resources last_page_backend None world0) =
     Inr \<lparr>resources =
            [\<lparr>res_uri = ''nutrient-document-engine:///d7'', res_mimeType = ''application/pdf'',
               res_name = JStr ''Document d7''\<rparr>],
          nextCursor = JUndefined\<rparr>"
    by code_simp
  from c have c': "calls (snd (list_resources demo_backend (Some ''3'') world0)) =
     [Get ''/api/documents'' (JObj [(''page'', JStr ''3'')])]"
    by (simp add: world0_def)
  have h0: "fst ((listing_backend (JObj [])) (be_state world0) (Get ''/api/documents'' (list_params None))) = Some (JObj [(''data'', JArr [invoice, untitled, no_title, empty_title]),
              (''meta'', JObj [(''pagination'', JObj [])])]) \<and>
      js_get (JObj [(''data'', JArr [invoice, untitled, no_title, empty_title]),
              (''meta'', JObj [(''pagination'', JObj [])])]) ''data'' = Some (JArr [invoice, untitled, no_title, empty_title]) \<and>
      those (map document_resource [invoice, untitled, no_title, empty_title]) = Some four_resources \<and>
      js_get (JObj [(''data'', JArr [invoice, untitled, no_title, empty_title]),
              (''meta'', JObj [(''pagination'', JObj [])])]) ''meta'' = Some (JObj [(''pagination'', JObj [])]) \<and>
      js_get (JObj [(''pagination'', JObj [])]) ''pagination'' = Some (JObj [])"
    by code_simp
  have e0: "(case map_of [] ''next_page'' of
                        None \<Rightarrow> JUndefined
                      | Some np \<Rightarrow>
                          if np \<in> {JUndefined, JNull, JBool False, JNum ''0'', JNum ''NaN'', JStr []}
                          then JUndefined else np) = JUndefined"
    by code_simp
  have x0: "fst (list_resources (listing_backend (JObj [])) None world0) =
        Inr \<lparr>resources = four_resources, nextCursor = (case map_of [] ''next_page'' of
                        None \<Rightarrow> JUndefined
                      | Some np \<Rightarrow>
                          if np \<in> {JUndefined, JNull, JBool False, JNum ''0'', JNum ''NaN'', JStr []}
                          then JUndefined else np)\<rparr>"
    by (rule list_resources_cursor [where c = "''3''" and be = "(listing_backend (JObj []))" and w = world0
          and cursor = None,
        THEN conjunct2, THEN conjunct2, THEN conjunct2, THEN conjunct2,
        THEN spec, THEN spec, THEN spec, THEN spec, THEN spec, THEN mp, OF h0])
  have r0: "fst (list_resources (listing_backend (JObj [])) None world0) =
        Inr \<lparr>resources = four_resources, nextCursor = JUndefined\<rparr>"
    using x0 unfolding e0 .
  have h1: "fst ((listing_backend (JObj [(''next_page'', JStr [])])) (be_state world0) (Get ''/api/documents'' (list_params None))) = Some (JObj [(''data'', JArr [invoice, untitled, no_title, empty_title]),
              (''meta'', JObj [(''pagination'', JObj [(''next_page'', JStr [])])])]) \<and>
      js_get (JObj [(''data'', JArr [invoice, untitled, no_title, empty_title]),
              (''meta'', JObj [(''pagination'', JObj [(''next_page'', JStr [])])])]) ''data'' = Some (JArr [invoice, untitled, no_title, empty_title]) \<and>
      those (map document_resource [invoice, untitled, no_title, empty_title]) = Some four_resources \<and>
      js_get (JObj [(''data'', JArr [invoice, untitled, no_title, empty_title]),
              (''meta'', JObj [(''pagination'', JObj [(''next_page'', JStr [])])])]) ''meta'' = Some (JObj [(''pagination'', JObj [(''next_page'', JStr [])])]) \<and>
      js_get (JObj [(''pagination'', JObj [(''next_page'', JStr [])])]) ''pagination'' = Some (JObj [(''next_page'', JStr [])])"
    by code_simp
  have e1: "(case map_of [(''next_page'', JStr [])] ''next_page'' of
                        None \<Rightarrow> JUndefined
                      | Some np \<Rightarrow>
                          if np \<in> {JUndefined, JNull, JBool False, JNum ''0'', JNum ''NaN'', JStr []}
                          then JUndefined else np) = JUndefined"
    by code_simp
  have x1: "fst (list_resources (listing_backend (JObj [(''next_page'', JStr [])])) None world0) =
        Inr \<lparr>resources = four_resources, nextCursor = (case map_of [(''next_page'', JStr [])] ''next_page'' of
                        None \<Rightarrow> JUndefined
                      | Some np \<Rightarrow>
                          if np \<in> {JUndefined, JNull, JBool False, JNum ''0'', JNum ''NaN'', JStr []}
                          then JUndefined else np)\<rparr>"
    by (rule list_resources_cursor [where c = "''3''" and be = "(listing_backend (JObj [(''next_page'', JStr [])]))" and w = world0
          and cursor = None,
        THEN conjunct2, THEN conjunct2, THEN conjunct2, THEN conjunct2,
        THEN spec, THEN spec, THEN spec, THEN spec, THEN spec, THEN mp, OF h1])
  have r1: "fst (list_resources (listing_backend (JObj [(''next_page'', JStr [])])) None world0) =
        Inr \<lparr>resources = four_resources, nextCursor = JUndefined\<rparr>"
    using x1 unfolding e1 .
  have h2: "fst ((listing_backend (JObj [(''next_page'', JNum ''0'')])) (be_state world0) (Get ''/api/documents'' (list_params None))) = Some (JObj [(''data'', JArr [invoice, untitled, no_title, empty_title]),
              (''meta'', JObj [(''pagination'', JObj [(''next_page'', JNum ''0'')])])]) \<and>
      js_get (JObj [(''data'', JArr [invoice, untitled, no_title, empty_title]),
              (''meta'', JObj [(''pagination'', JObj [(''next_page'', JNum ''0'')])])]) ''data'' = Some (JArr [invoice, untitled, no_title, empty_title]) \<and>
      those (map document_resource [invoice, untitled, no_title, empty_title]) = Some four_resources \<and>
      js_get (JObj [(''data'', JArr [invoice, untitled, no_title, empty_title]),
              (''meta'', JObj [(''pagination'', JObj [(''next_page'', JNum ''0'')])])]) ''meta'' = Some (JObj [(''pagination'', JObj [(''next_page'', JNum ''0'')])]) \<and>
      js_get (JObj [(''pagination'', JObj [(''next_page'', JNum ''0'')])]) ''pagination'' = Some (JObj [(''next_page'', JNum ''0'')])"
    by code_simp
  have e2: "(case map_of [(''next_page'', JNum ''0'')] ''next_page'' of
                        None \<Rightarrow> JUndefined
                      | Some np \<Rightarrow>
                          if np \<in> {JUndefined, JNull, JBool False, JNum ''0'', JNum ''NaN'', JStr []}
                          then JUndefined else np) = JUndefined"
    by code_simp
  have x2: "fst (list_resources (listing_backend (JObj [(''next_page'', JNum ''0'')])) None world0) =
        Inr \<lparr>resources = four_resources, nextCursor = (case map_of [(''next_page'', JNum ''0'')] ''next_page'' of
                        None \<Rightarrow> JUndefined
                      | Some np \<Rightarrow>
                          if np \<in> {JUndefined, JNull, JBool False, JNum ''0'', JNum ''NaN'', JStr []}
                          then JUndefined else np)\<rparr>"
    by (rule list_resources_cursor [where c = "''3''" and be = "(listing_backend (JObj [(''next_page'', JNum ''0'')]))" and w = world0
          and cursor = None,
        THEN conjunct2, THEN conjunct2, THEN conjunct2, THEN conjunct2,
        THEN spec, THEN spec, THEN spec, THEN spec, THEN spec, THEN mp, OF h2])
  have r2: "fst (list_resources (listing_backend (JObj [(''next_page'', JNum ''0'')])) None world0) =
        Inr \<lparr>resources = four_resources, nextCursor = JUndefined\<rparr>"
    using x2 unfolding e2 .
  have h3: "fst ((listing_backend (JObj [(''next_page'', JBool False)])) (be_state world0) (Get ''/api/documents'' (list_params None))) = Some (JObj [(''data'', JArr [invoice, untitled, no_title, empty_title]),
              (''meta'', JObj [(''pagination'', JObj [(''next_page'', JBool False)])])]) \<and>
      js_get (JObj [(''data'', JArr [invoice, untitled, no_title, empty_title]),
              (''meta'', JObj [(''pagination'', JObj [(''next_page'', JBool False)])])]) ''data'' = Some (JArr [invoice, untitled, no_title, empty_title]) \<and>
      those (map document_resource [invoice, untitled, no_title, empty_title]) = Some four_resources \<and>
      js_get (JObj [(''data'', JArr [invoice, untitled, no_title, empty_title]),
              (''meta'', JObj [(''pagination'', JObj [(''next_page'', JBool False)])])]) ''meta'' = Some (JObj [(''pagination'', JObj [(''next_page'', JBool False)])]) \<and>
      js_get (JObj [(''pagination'', JObj [(''next_page'', JBool False)])]) ''pagination'' = Some (JObj [(''next_page'', JBool False)])"
    by code_simp
  have e3: "(case map_of [(''next_page'', JBool False)] ''next_page'' of
                        None \<Rightarrow> JUndefined
                      | Some np \<Rightarrow>
                          if np \<in> {JUndefined, JNull, JBool False, JNum ''0'', JNum ''NaN'', JStr []}
                          then JUndefined else np) = JUndefined"
    by code_simp
  have x3: "fst (list_resources (listing_backend (JObj [(''next_page'', JBool False)])) None world0) =
        Inr \<lparr>resources = four_resources, nextCursor = (case map_of [(''next_page'', JBool False)] ''next_page'' of
                        None \<Rightarrow> JUndefined
                      | Some np \<Rightarrow>
                          if np \<in> {JUndefined, JNull, JBool False, JNum ''0'', JNum ''NaN'', JStr []}
                          then JUndefined else np)\<rparr>"
    by (rule list_resources_cursor [where c = "''3''" and be = "(listing_backend (JObj [(''next_page'', JBool False)]))" and w = world0
          and cursor = None,
        THEN conjunct2, THEN conjunct2, THEN conjunct2, THEN conjunct2,
        THEN spec, THEN spec, THEN spec, THEN spec, THEN spec, THEN mp, OF h3])
  have r3: "fst (list_resources (listing_backend (JObj [(''next_page'', JBool False)])) None world0) =
        Inr \<lparr>resources = four_resources, nextCursor = JUndefined\<rparr>"
    using x3 unfolding e3 .
  have h4: "fst ((listing_backend (JObj [(''next_page'', JNull)])) (be_state world0) (Get ''/api/documents'' (list_params None))) = Some (JObj [(''data'', JArr [invoice, untitled, no_title, empty_title]),
              (''meta'', JObj [(''pagination'', JObj [(''next_page'', JNull)])])]) \<and>
      js_get (JObj [(''data'', JArr [invoice, untitled, no_title, empty_title]),
              (''meta'', JObj [(''pagination'', JObj [(''next_page'', JNull)])])]) ''data'' = Some (JArr [invoice, untitled, no_title, empty_title]) \<and>
      those (map document_resource [invoice, untitled, no_title, empty_title]) = Some four_resources \<and>
      js_get (JObj [(''data'', JArr [invoice, untitled, no_title, empty_title]),
              (''meta'', JObj [(''pagination'', JObj [(''next_page'', JNull)])])]) ''meta'' = Some (JObj [(''pagination'', JObj [(''next_page'', JNull)])]) \<and>
      js_get (JObj [(''pagination'', JObj [(''next_page'', JNull)])]) ''pagination'' = Some (JObj [(''next_page'', JNull)])"
    by code_simp
  have e4: "(case map_of [(''next_page'', JNull)] ''next_page'' of
                        None \<Rightarrow> JUndefined
                      | Some np \<Rightarrow>
                          if np \<in> {JUndefined, JNull, JBool False, JNum ''0'', JNum ''NaN'', JStr []}
                          then JUndefined else np) = JUndefined"
    by code_simp
  have x4: "fst (list_resources (listing_backend (JObj [(''next_page'', JNull)])) None world0) =
        Inr \<lparr>resources = four_resources, nextCursor = (case map_of [(''next_page'', JNull)] ''next_page'' of
                        None \<Rightarrow> JUndefined
                      | Some np \<Rightarrow>
                          if np \<in> {JUndefined, JNull, JBool False, JNum ''0'', JNum ''NaN'', JStr []}
                          then JUndefined else np)\<rparr>"
    by (rule list_resources_cursor [where c = "''3''" and be = "(listing_backend (JObj [(''next_page'', JNull)]))" and w = world0
          and cursor = None,
        THEN conjunct2, THEN conjunct2, THEN conjunct2, THEN conjunct2,
        THEN spec, THEN spec, THEN spec, THEN spec, THEN spec, THEN mp, OF h4])
  have r4: "fst (list_resources (listing_backend (JObj [(''next_page'', JNull)])) None world0) =
        Inr \<lparr>resources = four_resources, nextCursor = JUndefined\<rparr>"
    using x4 unfolding e4 .
  have h5: "fst ((listing_backend (JObj [(''next_page'', JNum ''2'')])) (be_state world0) (Get ''/api/documents'' (list_params None))) = Some (JObj [(''data'', JArr [invoice, untitled, no_title, empty_title]),
              (''meta'', JObj [(''pagination'', JObj [(''next_page'', JNum ''2'')])])]) \<and>
      js_get (JObj [(''data'', JArr [invoice, untitled, no_title, empty_title]),
              (''meta'', JObj [(''pagination'', JObj [(''next_page'', JNum ''2'')])])]) ''data'' = Some (JArr [invoice, untitled, no_title, empty_title]) \<and>
      those (map document_resource [invoice, untitled, no_title, empty_title]) = Some four_resources \<and>
      js_get (JObj [(''data'', JArr [invoice, untitled, no_title, empty_title]),
              (''meta'', JObj [(''pagination'', JObj [(''next_page'', JNum ''2'')])])]) ''meta'' = Some (JObj [(''pagination'', JObj [(''next_page'', JNum ''2'')])]) \<and>
      js_get (JObj [(''pagination'', JObj [(''next_page'', JNum ''2'')])]) ''pagination'' = Some (JObj [(''next_page'', JNum ''2'')])"
    by code_simp
  have e5: "(case map_of [(''next_page'', JNum ''2'')] ''next_page'' of
                        None \<Rightarrow> JUndefined
                      | Some np \<Rightarrow>
                          if np \<in> {JUndefined, JNull, JBool False, JNum ''0'', JNum ''NaN'', JStr []}
                          then JUndefined else np) = JNum ''2''"
    by code_simp
  have x5: "fst (list_resources (listing_backend (JObj [(''next_page'', JNum ''2'')])) None world0) =
        Inr \<lparr>resources = four_resources, nextCursor = (case map_of [(''next_page'', JNum ''2'')] ''next_page'' of
                        None \<Rightarrow> JUndefined
                      | Some np \<Rightarrow>
                          if np \<in> {JUndefined, JNull, JBool False, JNum ''0'', JNum ''NaN'', JStr []}
                          then JUndefined else np)\<rparr>"
    by (rule list_resources_cursor [where c = "''3''" and be = "(listing_backend (JObj [(''next_page'', JNum ''2'')]))" and w = world0
          and cursor = None,
        THEN conjunct2, THEN conjunct2, THEN conjunct2, THEN conjunct2,
        THEN spec, THEN spec, THEN spec, THEN spec, THEN spec, THEN mp, OF h5])
  have r5: "fst (list_resources (listing_backend (JObj [(''next_page'', JNum ''2'')])) None world0) =
        Inr \<lparr>resources = four_resources, nextCursor = JNum ''2''\<rparr>"
    using x5 unfolding e5 .
  have h6: "fst ((listing_backend (JObj [(''next_page'', JStr ''2'')])) (be_state world0) (Get ''/api/documents'' (list_params None))) = Some (JObj [(''data'', JArr [invoice, untitled, no_title, empty_title]),
              (''meta'', JObj [(''pagination'', JObj [(''next_page'', JStr ''2'')])])]) \<and>
      js_get (JObj [(''data'', JArr [invoice, untitled, no_title, empty_title]),
              (''meta'', JObj [(''pagination'', JObj [(''next_page'', JStr ''2'')])])]) ''data'' = Some (JArr [invoice, untitled, no_title, empty_title]) \<and>
      those (map document_resource [invoice, untitled, no_title, empty_title]) = Some four_resources \<and>
      js_get (JObj [(''data'', JArr [invoice, untitled, no_title, empty_title]),
              (''meta'', JObj [(''pagination'', JObj [(''next_page'', JStr ''2'')])])]) ''meta'' = Some (JObj [(''pagination'', JObj [(''next_page'', JStr ''2'')])]) \<and>
      js_get (JObj [(''pagination'', JObj [(''next_page'', JStr ''2'')])]) ''pagination'' = Some (JObj [(''next_page'', JStr ''2'')])"
    by code_simp
  have e6: "(case map_of [(''next_page'', JStr ''2'')] ''next_page'' of
                        None \<Rightarrow> JUndefined
                      | Some np \<Rightarrow>
                          if np \<in> {JUndefined, JNull, JBool False, JNum ''0'', JNum ''NaN'', JStr []}
                          then JUndefined else np) = JStr ''2''"
    by code_simp
  have x6: "fst (list_resources (listing_backend (JObj [(''next_page'', JStr ''2'')])) None world0) =
        Inr \<lparr>resources = four_resources, nextCursor = (case map_of [(''next_page'', JStr ''2'')] ''next_page'' of
                        None \<Rightarrow> JUndefined
                      | Some np \<Rightarrow>
                          if np \<in> {JUndefined, JNull, JBool False, JNum ''0'', JNum ''NaN'', JStr []}
                          then JUndefined else np)\<rparr>"
    by (rule list_resources_cursor [where c = "''3''" and be = "(listing_backend (JObj [(''next_page'', JStr ''2'')]))" and w = world0
          and cursor = None,
        THEN conjunct2, THEN conjunct2, THEN conjunct2, THEN conjunct2,
        THEN spec, THEN spec, THEN spec, THEN spec, THEN spec, THEN mp, OF h6])
  have r6: "fst (list_resources (listing_backend (JObj [(''next_page'', JStr ''2'')])) None world0) =
        Inr \<lparr>resources = four_resources, nextCursor = JStr ''2''\<rparr>"
    using x6 unfolding e6 .
  from n c' a m e b h0 [THEN conjunct1] h0 [THEN conjunct2, THEN conjunct1] h0 [THEN conjunct2, THEN conjunct2, THEN conjunct1] h0 [THEN conjunct2, THEN conjunct2, THEN conjunct2, THEN conjunct1] h0 [THEN conjunct2, THEN conjunct2, THEN conjunct2, THEN conjunct2] r0 r1 h2 [THEN conjunct1] h2 [THEN conjunct2, THEN conjunct1] h2 [THEN conjunct2, THEN conjunct2, THEN conjunct1] h2 [THEN conjunct2, THEN conjunct2, THEN conjunct2, THEN conjunct1] h2 [THEN conjunct2, THEN conjunct2, THEN conjunct2, THEN conjunct2] r2 r3 r4 r5 r6
  show ?thesis by (intro conjI)
qed

lemma display_name_Some:
  "display_name doc = Some n \<Longrightarrow>
   \<exists>title. doc_title doc = Some title \<and>
     (if js_truthy title then n = title
      else \<exists>s. doc_id doc = Some s \<and> n = JStr (''Document '' @ s))"
  by (auto simp: display_name_def doc_title_def doc_id_def split: Option.bind_splits if_splits)

lemma document_resource_Some:
  "document_resource doc = Some res \<Longrightarrow>
   \<exists>s. doc_id doc = Some s \<and> display_name doc = Some (res_name res) \<and>
     res_uri res = uri_prefix @ s"
  by (auto simp: document_resource_def doc_id_def split: Option.bind_splits)

lemma display_name_title:
  assumes "display_name doc = Some n" and "doc_id doc = Some s"
  shows "\<exists>title. doc_title doc = Some title \<and>
     (\<not> js_truthy title \<longrightarrow> n = JStr (''Document '' @ s)) \<and> (js_truthy title \<longrightarrow> n = title)"
proof -
  from display_name_Some [OF assms(1)] obtain title where
    t: "doc_title doc = Some title" and
    c: "if js_truthy title then n = title
        else \<exists>s. doc_id doc = Some s \<and> n = JStr (''Document '' @ s)" by blast
  have 1: "\<not> js_truthy title \<longrightarrow> n = JStr (''Document '' @ s)"
    using c assms(2) by auto
  have 2: "js_truthy title \<longrightarrow> n = title"
    using c by auto
  from t 1 2 show ?thesis by blast
qed

lemma display_name_general:
  "(\<not> js_truthy JUndefined \<and> \<not> js_truthy JNull \<and> \<not> js_truthy (JStr []) \<and>
    (\<forall>t. t \<noteq> [] \<longrightarrow> js_truthy (JStr t))) \<and>
   (\<forall>r. fst (list_resources be cursor w) = Inr r \<longrightarrow>
      (\<exists>body docs.
         fst (be (be_state w) (Get ''/api/documents'' (list_params cursor))) = Some body \<and>
         js_get body ''data'' = Some (JArr docs) \<and>
         length (resources r) = length docs \<and>
         (\<forall>i<length docs.
            \<exists>title s. doc_title (docs ! i) = Some title \<and> doc_id (docs ! i) = Some s \<and>
              (\<not> js_truthy title \<longrightarrow> res_name (resources r ! i) = JStr (''Document '' @ s)) \<and>
              (js_truthy title \<longrightarrow> res_name (resources r ! i) = title)))) \<and>
   (\<forall>l. document_line doc = Some l \<longrightarrow>
      (\<exists>title s. doc_title doc = Some title \<and> doc_id doc = Some s \<and>
         (\<not> js_truthy title \<longrightarrow> l = ''Document '' @ s @ '' (ID: '' @ s @ '')'') \<and>
         (js_truthy title \<longrightarrow>
            (\<exists>t. js_to_string title = Some t \<and> l = t @ '' (ID: '' @ s @ '')''))))"
proof (intro conjI allI impI)
  show "\<not> js_truthy JUndefined" "\<not> js_truthy JNull" "\<not> js_truthy (JStr [])" by simp_all
next
  fix t :: string assume "t \<noteq> []"
  then show "js_truthy (JStr t)" by simp
next
  fix r assume "fst (list_resources be cursor w) = Inr r"
  from list_resources_Inr [OF this] obtain body where
    b: "fst (be (be_state w) (Get ''/api/documents'' (list_params cursor))) = Some body"
    and l: "list_response body = Some r" by blast
  from list_response_Some [OF l] obtain docs where
    d: "js_get body ''data'' = Some (JArr docs)" and
    th: "those (map document_resource docs) = Some (resources r)" by blast
  from those_map_nth [OF th] have len: "length (resources r) = length docs"
    and n: "\<forall>i<length docs. document_resource (docs ! i) = Some (resources r ! i)"
    by simp_all
  have "\<forall>i<length docs.
            \<exists>title s. doc_title (docs ! i) = Some title \<and> doc_id (docs ! i) = Some s \<and>
              (\<not> js_truthy title \<longrightarrow> res_name (resources r ! i) = JStr (''Document '' @ s)) \<and>
              (js_truthy title \<longrightarrow> res_name (resources r ! i) = title)"
  proof (intro allI impI)
    fix i assume "i < length docs"
    with n have "document_resource (docs ! i) = Some (resources r ! i)" by simp
    from document_resource_Some [OF this] obtain s where
      s: "doc_id (docs ! i) = Some s" and
      dn: "display_name (docs ! i) = Some (res_name (resources r ! i))" by blast
    from display_name_title [OF dn s] s
    show "\<exists>title s. doc_title (docs ! i) = Some title \<and> doc_id (docs ! i) = Some s \<and>
              (\<not> js_truthy title \<longrightarrow> res_name (resources r ! i) = JStr (''Document '' @ s)) \<and>
              (js_truthy title \<longrightarrow> res_name (resources r ! i) = title)"
      by blast
  qed
  with b d len
  show "\<exists>body docs.
         fst (be (be_state w) (Get ''/api/documents'' (list_params cursor))) = Some body \<and>
         js_get body ''data'' = Some (JArr docs) \<and>
         length (resources r) = length docs \<and>
         (\<forall>i<length docs.
            \<exists>title s. doc_title (docs ! i) = Some title \<and> doc_id (docs ! i) = Some s \<and>
              (\<not> js_truthy title \<longrightarrow> res_name (resources r ! i) = JStr (''Document '' @ s)) \<and>
              (js_truthy title \<longrightarrow> res_name (resources r ! i) = title))"
    by blast
next
  fix l assume "document_line doc = Some l"
  from document_line_Some [OF this] obtain shown t s where
    dn: "display_name doc = Some shown" and ts: "js_to_string shown = Some t" and
    s: "doc_id doc = Some s" and l: "l = t @ '' (ID: '' @ s @ '')''" by blast
  from display_name_title [OF dn s] obtain title where
    t: "doc_title doc = Some title" and
    1: "\<not> js_truthy title \<longrightarrow> shown = JStr (''Document '' @ s)" and
    2: "js_truthy title \<longrightarrow> shown = title" by blast
  have a: "\<not> js_truthy title \<longrightarrow> l = ''Document '' @ s @ '' (ID: '' @ s @ '')''"
    using 1 ts l by auto
  have b: "js_truthy title \<longrightarrow> (\<exists>t. js_to_string title = Some t \<and> l = t @ '' (ID: '' @ s @ '')'')"
    using 2 ts l by auto
  from t s a b
  show "\<exists>title s. doc_title doc = Some title \<and> doc_id doc = Some s \<and>
         (\<not> js_truthy title \<longrightarrow> l = ''Document '' @ s @ '' (ID: '' @ s @ '')'') \<and>
         (js_truthy title \<longrightarrow>
            (\<exists>t. js_to_string title = Some t \<and> l = t @ '' (ID: '' @ s @ '')''))"
    by blast
qed

lemma document_reads:
  "\<forall>kvs attrs.
      doc = JObj kvs \<and> map_of kvs ''attributes'' = Some (JObj attrs) \<longrightarrow>
      doc_title doc = Some (case map_of attrs ''title'' of None \<Rightarrow> JUndefined | Some t \<Rightarrow> t) \<and>
      (\<forall>s. map_of kvs ''id'' = Some (JStr s) \<longrightarrow> doc_id doc = Some s) \<and>
      (\<forall>n. map_of kvs ''id'' = Some (JNum n) \<longrightarrow> doc_id doc = Some n)"
  by (auto simp: doc_title_def doc_id_def obj_get_def split: option.splits)

lemma display_name_build:
  "doc_title doc = Some title \<Longrightarrow> doc_id doc = Some s \<Longrightarrow>
   display_name doc = Some (if js_truthy title then title else JStr (''Document '' @ s))"
  by (auto simp: display_name_def doc_title_def doc_id_def split: Option.bind_splits)

lemma document_resource_build:
  "doc_title doc = Some title \<Longrightarrow> doc_id doc = Some s \<Longrightarrow>
   document_resource doc =
     Some \<lparr>res_uri = uri_prefix @ s, res_mimeType = ''application/pdf'',
                res_name = (if js_truthy title then title else JStr (''Document '' @ s))\<rparr>"
  by (auto simp: document_resource_def display_name_def doc_title_def doc_id_def
      split: Option.bind_splits)

lemma display_name_produced:
  "\<forall>title s.
      doc_title doc = Some title \<and> doc_id doc = Some s \<longrightarrow>
      display_name doc = Some (if js_truthy title then title else JStr (''Document '' @ s)) \<and>
      document_resource doc =
        Some \<lparr>res_uri = uri_prefix @ s, res_mimeType = ''application/pdf'',
                res_name = (if js_truthy title then title else JStr (''Document '' @ s))\<rparr> \<and>
      (\<forall>t. (if js_truthy title then js_to_string title = Some t else t = ''Document '' @ s) \<longrightarrow>
           document_line doc = Some (t @ '' (ID: '' @ s @ '')''))"
proof (intro allI impI)
  fix title s
  assume "doc_title doc = Some title \<and> doc_id doc = Some s"
  then have t: "doc_title doc = Some title" and s: "doc_id doc = Some s" by blast+
  have l: "(\<forall>t. (if js_truthy title then js_to_string title = Some t else t = ''Document '' @ s) \<longrightarrow>
           document_line doc = Some (t @ '' (ID: '' @ s @ '')''))"
    using document_line_build [OF t s] by blast
  from display_name_build [OF t s] document_resource_build [OF t s] l
  show "display_name doc = Some (if js_truthy title then title else JStr (''Document '' @ s)) \<and>
      document_resource doc =
        Some \<lparr>res_uri = uri_prefix @ s, res_mimeType = ''application/pdf'',
                res_name = (if js_truthy title then title else JStr (''Document '' @ s))\<rparr> \<and>
      (\<forall>t. (if js_truthy title then js_to_string title = Some t else t = ''Document '' @ s) \<longrightarrow>
           document_line doc = Some (t @ '' (ID: '' @ s @ '')''))"
    by (intro conjI)
qed

lemma listing_names_produced:
  "\<forall>body docs rs.
      fst (be (be_state w) (Get ''/api/documents'' (list_params cursor))) = Some body \<and>
      js_get body ''data'' = Some (JArr docs) \<and>
      (\<exists>meta pg np. js_get body ''meta'' = Some meta \<and> js_get meta ''pagination'' = Some pg \<and>
         js_get pg ''next_page'' = Some np) \<and>
      length rs = length docs \<and>
      (\<forall>i<length docs.
         \<exists>title s. doc_title (docs ! i) = Some title \<and> doc_id (docs ! i) = Some s \<and>
            rs ! i =
              \<lparr>res_uri = uri_prefix @ s, res_mimeType = ''application/pdf'',
                res_name = (if js_truthy title then title else JStr (''Document '' @ s))\<rparr>) \<longrightarrow>
      (\<exists>r. fst (list_resources be cursor w) = Inr r \<and> resources r = rs)"
proof (intro allI impI)
  fix body docs rs
  assume "fst (be (be_state w) (Get ''/api/documents'' (list_params cursor))) = Some body \<and>
      js_get body ''data'' = Some (JArr docs) \<and>
      (\<exists>meta pg np. js_get body ''meta'' = Some meta \<and> js_get meta ''pagination'' = Some pg \<and>
         js_get pg ''next_page'' = Some np) \<and>
      length rs = length docs \<and>
      (\<forall>i<length docs.
         \<exists>title s. doc_title (docs ! i) = Some title \<and> doc_id (docs ! i) = Some s \<and>
            rs ! i =
              \<lparr>res_uri = uri_prefix @ s, res_mimeType = ''application/pdf'',
                res_name = (if js_truthy title then title else JStr (''Document '' @ s))\<rparr>)"
  then have b: "fst (be (be_state w) (Get ''/api/documents'' (list_params cursor))) = Some body"
    and d: "js_get body ''data'' = Some (JArr docs)"
    and p: "\<exists>meta pg np. js_get body ''meta'' = Some meta \<and> js_get meta ''pagination'' = Some pg \<and>
         js_get pg ''next_page'' = Some np"
    and l: "length rs = length docs"
    and f: "\<forall>i<length docs.
         \<exists>title s. doc_title (docs ! i) = Some title \<and> doc_id (docs ! i) = Some s \<and>
            rs ! i =
              \<lparr>res_uri = uri_prefix @ s, res_mimeType = ''application/pdf'',
                res_name = (if js_truthy title then title else JStr (''Document '' @ s))\<rparr>"
    by blast+
  from p obtain meta pg np where m: "js_get body ''meta'' = Some meta"
    and g: "js_get meta ''pagination'' = Some pg" and n: "js_get pg ''next_page'' = Some np"
    by blast
  have "\<forall>i<length docs. document_resource (docs ! i) = Some (rs ! i)"
  proof (intro allI impI)
    fix i assume "i < length docs"
    with f obtain title s where
      "doc_title (docs ! i) = Some title" "doc_id (docs ! i) = Some s"
      "rs ! i =
              \<lparr>res_uri = uri_prefix @ s, res_mimeType = ''application/pdf'',
                res_name = (if js_truthy title then title else JStr (''Document '' @ s))\<rparr>"
      by blast
    then show "document_resource (docs ! i) = Some (rs ! i)"
      using document_resource_build by metis
  qed
  with l have t: "those (map document_resource docs) = Some rs" by (rule those_map_build)
  from list_resources_build [where be = be and w = w, OF b list_response_build [OF d t m g n]]
  show "(\<exists>r. fst (list_resources be cursor w) = Inr r \<and> resources r = rs)"
    by simp
qed

text \<open>
  C4: a title is absent or empty when it is falsy for \<^verbatim>\<open>||\<close>: no such property, \<^verbatim>\<open>null\<close> or
  the empty string (among values that are no strings, also \<^verbatim>\<open>0\<close> and \<^verbatim>\<open>false\<close>); every
  other string is truthy. The name of a listed document with such a title is
  \<^verbatim>\<open>Document <id>\<close>, with the printed id of that document, and the name of any other
  document is its title. The line of a search result starts with the same name, printed.
  Both are produced for every document whose attributes are an object and whose id can be
  printed, and a listing of such documents returns with these names in the order of the
  backend.
\<close>

theorem display_name_fallback:
  "(\<not> js_truthy JUndefined \<and> \<not> js_truthy JNull \<and> \<not> js_truthy (JStr []) \<and>
    (\<forall>t. t \<noteq> [] \<longrightarrow> js_truthy (JStr t))) \<and>
   (\<forall>r. fst (list_resources be cursor w) = Inr r \<longrightarrow>
      (\<exists>body docs.
         fst (be (be_state w) (Get ''/api/documents'' (list_params cursor))) = Some body \<and>
         js_get body ''data'' = Some (JArr docs) \<and>
         length (resources r) = length docs \<and>
         (\<forall>i<length docs.
            \<exists>title s. doc_title (docs ! i) = Some title \<and> doc_id (docs ! i) = Some s \<and>
              (\<not> js_truthy title \<longrightarrow> res_name (resources r ! i) = JStr (''Document '' @ s)) \<and>
              (js_truthy title \<longrightarrow> res_name (resources r ! i) = title)))) \<and>
   (\<forall>l. document_line doc = Some l \<longrightarrow>
      (\<exists>title s. doc_title doc = Some title \<and> doc_id doc = Some s \<and>
         (\<not> js_truthy title \<longrightarrow> l = ''Document '' @ s @ '' (ID: '' @ s @ '')'') \<and>
         (js_truthy title \<longrightarrow>
            (\<exists>t. js_to_string title = Some t \<and> l = t @ '' (ID: '' @ s @ '')'')))) \<and>
   (\<forall>kvs attrs.
      doc = JObj kvs \<and> map_of kvs ''attributes'' = Some (JObj attrs) \<longrightarrow>
      doc_title doc = Some (case map_of attrs ''title'' of None \<Rightarrow> JUndefined | Some t \<Rightarrow> t) \<and>
      (\<forall>s. map_of kvs ''id'' = Some (JStr s) \<longrightarrow> doc_id doc = Some s) \<and>
      (\<forall>n. map_of kvs ''id'' = Some (JNum n) \<longrightarrow> doc_id doc = Some n)) \<and>
   (\<forall>title s.
      doc_title doc = Some title \<and> doc_id doc = Some s \<longrightarrow>
      display_name doc = Some (if js_truthy title then title else JStr (''Document '' @ s)) \<and>
      document_resource doc =
        Some \<lparr>res_uri = uri_prefix @ s, res_mimeType = ''application/pdf'',
                res_name = (if js_truthy title then title else JStr (''Document '' @ s))\<rparr> \<and>
      (\<forall>t. (if js_truthy title then js_to_string title = Some t else t = ''Document '' @ s) \<longrightarrow>
           document_line doc = Some (t @ '' (ID: '' @ s @ '')''))) \<and>
   (\<forall>body docs rs.
      fst (be (be_state w) (Get ''/api/documents'' (list_params cursor))) = Some body \<and>
      js_get body ''data'' = Some (JArr docs) \<and>
      (\<exists>meta pg np. js_get body ''meta'' = Some meta \<and> js_get meta ''pagination'' = Some pg \<and>
         js_get pg ''next_page'' = Some np) \<and>
      length rs = length docs \<and>
      (\<forall>i<length docs.
         \<exists>title s. doc_title (docs ! i) = Some title \<and> doc_id (docs ! i) = Some s \<and>
            rs ! i =
              \<lparr>res_uri = uri_prefix @ s, res_mimeType = ''application/pdf'',
                res_name = (if js_truthy title then title else JStr (''Document '' @ s))\<rparr>) \<longrightarrow>
      (\<exists>r. fst (list_resources be cursor w) = Inr r \<and> resources r = rs))"
  by (rule conjI [OF display_name_general [THEN conjunct1]
        conjI [OF display_name_general [THEN conjunct2, THEN conjunct1]
          conjI [OF display_name_general [THEN conjunct2, THEN conjunct2]
            conjI [OF document_reads conjI [OF display_name_produced listing_names_produced]]]]])

theorem display_name_fallback_witness:
  "fst (list_resources demo_backend None world0) = Inr demo_listing \<and>
   map res_name (resources demo_listing) = [JStr ''Invoice'', JStr ''Document d7''] \<and>
   doc_title invoice = Some (JStr ''Invoice'') \<and>
   doc_title untitled = Some JNull \<and>
   document_line untitled = Some ''Document d7 (ID: d7)'' \<and>
   (\<exists>body docs.
      fst (demo_backend (be_state world0) (Get ''/api/documents'' (list_params None))) = Some body \<and>
      js_get body ''data'' = Some (JArr docs) \<and>
      length (resources demo_listing) = length docs \<and>
      (\<forall>i<length docs.
         \<exists>title s. doc_title (docs ! i) = Some title \<and> doc_id (docs ! i) = Some s \<and>
           (\<not> js_truthy title \<longrightarrow>
              res_name (resources demo_listing ! i) = JStr (''Document '' @ s)) \<and>
           (js_truthy title \<longrightarrow> res_name (resources demo_listing ! i) = title))) \<and>
   (\<exists>title s. doc_title untitled = Some title \<and> doc_id untitled = Some s \<and>
      (\<not> js_truthy title \<longrightarrow> ''Document d7 (ID: d7)'' = ''Document '' @ s @ '' (ID: '' @ s @ '')'') \<and>
      (js_truthy title \<longrightarrow>
         (\<exists>t. js_to_string title = Some t \<and> ''Document d7 (ID: d7)'' = t @ '' (ID: '' @ s @ '')''))) \<and>
   doc_title invoice = Some (JStr ''Invoice'') \<and>
   doc_id invoice = Some ''abc123'' \<and>
   document_resource invoice =
     Some \<lparr>res_uri = ''nutrient-document-engine:///abc123'', res_mimeType = ''application/pdf'', res_name = JStr ''Invoice''\<rparr> \<and>
   document_line invoice = Some ''Invoice (ID: abc123)'' \<and>
   doc_title untitled = Some (JNull) \<and>
   doc_id untitled = Some ''d7'' \<and>
   document_resource untitled =
     Some \<lparr>res_uri = ''nutrient-document-engine:///d7'', res_mimeType = ''application/pdf'', res_name = JStr ''Document d7''\<rparr> \<and>
   document_line untitled = Some ''Document d7 (ID: d7)'' \<and>
   doc_title no_title = Some (JUndefined) \<and>
   doc_id no_title = Some ''n1'' \<and>
   document_resource no_title =
     Some \<lparr>res_uri = ''nutrient-document-engine:///n1'', res_mimeType = ''application/pdf'', res_name = JStr ''Document n1''\<rparr> \<and>
   document_line no_title = Some ''Document n1 (ID: n1)'' \<and>
   doc_title empty_title = Some (JStr []) \<and>
   doc_id empty_title = Some ''18446744073709552000'' \<and>
   document_resource empty_title =
     Some \<lparr>res_uri = ''nutrient-document-engine:///18446744073709552000'', res_mimeType = ''application/pdf'', res_name = JStr ''Document 18446744073709552000''\<rparr> \<and>
   document_line empty_title = Some ''Document 18446744073709552000 (ID: 18446744073709552000)'' \<and>
   (fst ((listing_backend (JObj [])) (be_state world0) (Get ''/api/documents'' (list_params None))) = Some (JObj [(''data'', JArr [invoice, untitled, no_title, empty_title]),
              (''meta'', JObj [(''pagination'', JObj [])])]) \<and>
      js_get (JObj [(''data'', JArr [invoice, untitled, no_title, empty_title]),
              (''meta'', JObj [(''pagination'', JObj [])])]) ''data'' = Some (JArr [invoice, untitled, no_title, empty_title]) \<and>
      (\<exists>meta pg np. js_get (JObj [(''data'', JArr [invoice, untitled, no_title, empty_title]),
              (''meta'', JObj [(''pagination'', JObj [])])]) ''meta'' = Some meta \<and> js_get meta ''pagination'' = Some pg \<and>
         js_get pg ''next_page'' = Some np) \<and>
      length four_resources = length [invoice, untitled, no_title, empty_title] \<and>
      (\<exists>title s. doc_title ([invoice, untitled, no_title, empty_title] ! 0) = Some title \<and> doc_id ([invoice, untitled, no_title, empty_title] ! 0) = Some s \<and>
            four_resources ! 0 =
              \<lparr>res_uri = uri_prefix @ s, res_mimeType = ''application/pdf'',
                res_name = (if js_truthy title then title else JStr (''Document '' @ s))\<rparr>) \<and>
      (\<exists>title s. doc_title ([invoice, untitled, no_title, empty_title] ! 1) = Some title \<and> doc_id ([invoice, untitled, no_title, empty_title] ! 1) = Some s \<and>
            four_resources ! 1 =
              \<lparr>res_uri = uri_prefix @ s, res_mimeType = ''application/pdf'',
                res_name = (if js_truthy title then title else JStr (''Document '' @ s))\<rparr>) \<and>
      (\<exists>title s. doc_title ([invoice, untitled, no_title, empty_title] ! 2) = Some title \<and> doc_id ([invoice, untitled, no_title, empty_title] ! 2) = Some s \<and>
            four_resources ! 2 =
              \<lparr>res_uri = uri_prefix @ s, res_mimeType = ''application/pdf'',
                res_name = (if js_truthy title then title else JStr (''Document '' @ s))\<rparr>) \<and>
      (\<exists>title s. doc_title ([invoice, untitled, no_title, empty_title] ! 3) = Some title \<and> doc_id ([invoice, untitled, no_title, empty_title] ! 3) = Some s \<and>
            four_resources ! 3 =
              \<lparr>res_uri = uri_prefix @ s, res_mimeType = ''application/pdf'',
                res_name = (if js_truthy title then title else JStr (''Document '' @ s))\<rparr>)) \<and>
   (\<exists>r. fst (list_resources (listing_backend (JObj [])) None world0) = Inr r \<and> resources r = four_resources) \<and>
   fst (list_resources (listing_backend (JObj [])) None world0) =
     Inr \<lparr>resources = four_resources, nextCursor = JUndefined\<rparr> \<and>
   map res_name four_resources =
     [JStr ''Invoice'', JStr ''Document d7'', JStr ''Document n1'',
      JStr ''Document 18446744073709552000'']"
proof -
  have oa: "fst (list_resources demo_backend None world0) = Inr demo_listing" by code_simp
  have on: "map res_name (resources demo_listing) = [JStr ''Invoice'', JStr ''Document d7'']"
    by (simp add: demo_listing_def)
  have ob: "doc_title untitled = Some JNull" by code_simp
  have oc: "document_line untitled = Some ''Document d7 (ID: d7)''" by code_simp
  have od: "doc_title invoice = Some (JStr ''Invoice'')" by code_simp
  note og = display_name_fallback [where be = demo_backend and cursor = None and w = world0
        and doc = untitled,
      THEN conjunct2, THEN conjunct1, rule_format, OF oa]
  note of = display_name_fallback [where be = demo_backend and cursor = None and w = world0
        and doc = untitled,
      THEN conjunct2, THEN conjunct2, THEN conjunct1, rule_format, OF oc]
  have a0: "invoice = JObj [(''id'', JStr ''abc123''), (''attributes'', JObj [(''title'', JStr ''Invoice''), (''page_count'', JNum ''2'')])] \<and> map_of [(''id'', JStr ''abc123''), (''attributes'', JObj [(''title'', JStr ''Invoice''), (''page_count'', JNum ''2'')])] ''attributes'' = Some (JObj [(''title'', JStr ''Invoice''), (''page_count'', JNum ''2'')])"
    by code_simp
  note rd0 = display_name_fallback [where be = "listing_backend (JObj [])" and cursor = None and w = world0 and doc = invoice,
      THEN conjunct2, THEN conjunct2, THEN conjunct2, THEN conjunct1,
      THEN spec, THEN spec, THEN mp, OF a0]
  have ev0: "(case map_of [(''title'', JStr ''Invoice''), (''page_count'', JNum ''2'')] ''title'' of None \<Rightarrow> JUndefined | Some t \<Rightarrow> t) = JStr ''Invoice''"
    by code_simp
  have t0: "doc_title invoice = Some (JStr ''Invoice'')"
    using rd0 [THEN conjunct1] unfolding ev0 .
  have i0: "map_of [(''id'', JStr ''abc123''), (''attributes'', JObj [(''title'', JStr ''Invoice''), (''page_count'', JNum ''2'')])] ''id'' = Some (JStr ''abc123'')"
    by code_simp
  have s0: "doc_id invoice = Some ''abc123''"
    by (rule rd0 [THEN conjunct2, THEN conjunct1, THEN spec, THEN mp, OF i0])
  note one0 = display_name_fallback [where be = "listing_backend (JObj [])" and cursor = None and w = world0 and doc = invoice,
      THEN conjunct2, THEN conjunct2, THEN conjunct2, THEN conjunct2, THEN conjunct1,
      THEN spec, THEN spec, THEN mp, OF conjI [OF t0 s0]]
  have er0: "\<lparr>res_uri = uri_prefix @ ''abc123'', res_mimeType = ''application/pdf'',
                res_name = (if js_truthy (JStr ''Invoice'') then (JStr ''Invoice'') else JStr (''Document '' @ ''abc123''))\<rparr> =
      \<lparr>res_uri = ''nutrient-document-engine:///abc123'', res_mimeType = ''application/pdf'', res_name = JStr ''Invoice''\<rparr>"
    by code_simp
  have n0: "document_resource invoice =
      Some \<lparr>res_uri = ''nutrient-document-engine:///abc123'', res_mimeType = ''application/pdf'', res_name = JStr ''Invoice''\<rparr>"
    using one0 [THEN conjunct2, THEN conjunct1] unfolding er0 .
  have c0: "if js_truthy (JStr ''Invoice'') then js_to_string (JStr ''Invoice'') = Some ''Invoice'' else ''Invoice'' = ''Document '' @ ''abc123''"
    by code_simp
  have el0: "''Invoice'' @ '' (ID: '' @ ''abc123'' @ '')'' = ''Invoice (ID: abc123)''"
    by code_simp
  have l0: "document_line invoice = Some ''Invoice (ID: abc123)''"
    using one0 [THEN conjunct2, THEN conjunct2, THEN spec, THEN mp, OF c0] unfolding el0 .
  have q0: "doc_title ([invoice, untitled, no_title, empty_title] ! 0) = Some (JStr ''Invoice'') \<and> doc_id ([invoice, untitled, no_title, empty_title] ! 0) = Some ''abc123'' \<and>
            four_resources ! 0 =
              \<lparr>res_uri = uri_prefix @ ''abc123'', res_mimeType = ''application/pdf'',
                res_name = (if js_truthy (JStr ''Invoice'') then (JStr ''Invoice'') else JStr (''Document '' @ ''abc123''))\<rparr>"
    by code_simp
  have p0: "\<exists>title s. doc_title ([invoice, untitled, no_title, empty_title] ! 0) = Some title \<and> doc_id ([invoice, untitled, no_title, empty_title] ! 0) = Some s \<and>
            four_resources ! 0 =
              \<lparr>res_uri = uri_prefix @ s, res_mimeType = ''application/pdf'',
                res_name = (if js_truthy title then title else JStr (''Document '' @ s))\<rparr>"
    by (intro exI) (rule q0)
  have a1: "untitled = JObj [(''id'', JStr ''d7''), (''attributes'', JObj [(''title'', JNull), (''page_count'', JNum ''1'')])] \<and> map_of [(''id'', JStr ''d7''), (''attributes'', JObj [(''title'', JNull), (''page_count'', JNum ''1'')])] ''attributes'' = Some (JObj [(''title'', JNull), (''page_count'', JNum ''1'')])"
    by code_simp
  note rd1 = display_name_fallback [where be = "listing_backend (JObj [])" and cursor = None and w = world0 and doc = untitled,
      THEN conjunct2, THEN conjunct2, THEN conjunct2, THEN conjunct1,
      THEN spec, THEN spec, THEN mp, OF a1]
  have ev1: "(case map_of [(''title'', JNull), (''page_count'', JNum ''1'')] ''title'' of None \<Rightarrow> JUndefined | Some t \<Rightarrow> t) = JNull"
    by code_simp
  have t1: "doc_title untitled = Some (JNull)"
    using rd1 [THEN conjunct1] unfolding ev1 .
  have i1: "map_of [(''id'', JStr ''d7''), (''attributes'', JObj [(''title'', JNull), (''page_count'', JNum ''1'')])] ''id'' = Some (JStr ''d7'')"
    by code_simp
  have s1: "doc_id untitled = Some ''d7''"
    by (rule rd1 [THEN conjunct2, THEN conjunct1, THEN spec, THEN mp, OF i1])
  note one1 = display_name_fallback [where be = "listing_backend (JObj [])" and cursor = None and w = world0 and doc = untitled,
      THEN conjunct2, THEN conjunct2, THEN conjunct2, THEN conjunct2, THEN conjunct1,
      THEN spec, THEN spec, THEN mp, OF conjI [OF t1 s1]]
  have er1: "\<lparr>res_uri = uri_prefix @ ''d7'', res_mimeType = ''application/pdf'',
                res_name = (if js_truthy (JNull) then (JNull) else JStr (''Document '' @ ''d7''))\<rparr> =
      \<lparr>res_uri = ''nutrient-document-engine:///d7'', res_mimeType = ''application/pdf'', res_name = JStr ''Document d7''\<rparr>"
    by code_simp
  have n1: "document_resource untitled =
      Some \<lparr>res_uri = ''nutrient-document-engine:///d7'', res_mimeType = ''application/pdf'', res_name = JStr ''Document d7''\<rparr>"
    using one1 [THEN conjunct2, THEN conjunct1] unfolding er1 .
  have c1: "if js_truthy (JNull) then js_to_string (JNull) = Some ''Document d7'' else ''Document d7'' = ''Document '' @ ''d7''"
    by code_simp
  have el1: "''Document d7'' @ '' (ID: '' @ ''d7'' @ '')'' = ''Document d7 (ID: d7)''"
    by code_simp
  have l1: "document_line untitled = Some ''Document d7 (ID: d7)''"
    using one1 [THEN conjunct2, THEN conjunct2, THEN spec, THEN mp, OF c1] unfolding el1 .
  have q1: "doc_title ([invoice, untitled, no_title, empty_title] ! 1) = Some (JNull) \<and> doc_id ([invoice, untitled, no_title, empty_title] ! 1) = Some ''d7'' \<and>
            four_resources ! 1 =
              \<lparr>res_uri = uri_prefix @ ''d7'', res_mimeType = ''application/pdf'',
                res_name = (if js_truthy (JNull) then (JNull) else JStr (''Document '' @ ''d7''))\<rparr>"
    by code_simp
  have p1: "\<exists>title s. doc_title ([invoice, untitled, no_title, empty_title] ! 1) = Some title \<and> doc_id ([invoice, untitled, no_title, empty_title] ! 1) = Some s \<and>
            four_resources ! 1 =
              \<lparr>res_uri = uri_prefix @ s, res_mimeType = ''application/pdf'',
                res_name = (if js_truthy title then title else JStr (''Document '' @ s))\<rparr>"
    by (intro exI) (rule q1)
  have a2: "no_title = JObj [(''id'', JStr ''n1''), (''attributes'', JObj [(''page_count'', JNum ''3'')])] \<and> map_of [(''id'', JStr ''n1''), (''attributes'', JObj [(''page_count'', JNum ''3'')])] ''attributes'' = Some (JObj [(''page_count'', JNum ''3'')])"
    by code_simp
  note rd2 = display_name_fallback [where be = "listing_backend (JObj [])" and cursor = None and w = world0 and doc = no_title,
      THEN conjunct2, THEN conjunct2, THEN conjunct2, THEN conjunct1,
      THEN spec, THEN spec, THEN mp, OF a2]
  have ev2: "(case map_of [(''page_count'', JNum ''3'')] ''title'' of None \<Rightarrow> JUndefined | Some t \<Rightarrow> t) = JUndefined"
    by code_simp
  have t2: "doc_title no_title = Some (JUndefined)"
    using rd2 [THEN conjunct1] unfolding ev2 .
  have i2: "map_of [(''id'', JStr ''n1''), (''attributes'', JObj [(''page_count'', JNum ''3'')])] ''id'' = Some (JStr ''n1'')"
    by code_simp
  have s2: "doc_id no_title = Some ''n1''"
    by (rule rd2 [THEN conjunct2, THEN conjunct1, THEN spec, THEN mp, OF i2])
  note one2 = display_name_fallback [where be = "listing_backend (JObj [])" and cursor = None and w = world0 and doc = no_title,
      THEN conjunct2, THEN conjunct2, THEN conjunct2, THEN conjunct2, THEN conjunct1,
      THEN spec, THEN spec, THEN mp, OF conjI [OF t2 s2]]
  have er2: "\<lparr>res_uri = uri_prefix @ ''n1'', res_mimeType = ''application/pdf'',
                res_name = (if js_truthy (JUndefined) then (JUndefined) else JStr (''Document '' @ ''n1''))\<rparr> =
      \<lparr>res_uri = ''nutrient-document-engine:///n1'', res_mimeType = ''application/pdf'', res_name = JStr ''Document n1''\<rparr>"
    by code_simp
  have n2: "document_resource no_title =
      Some \<lparr>res_uri = ''nutrient-document-engine:///n1'', res_mimeType = ''application/pdf'', res_name = JStr ''Document n1''\<rparr>"
    using one2 [THEN conjunct2, THEN conjunct1] unfolding er2 .
  have c2: "if js_truthy (JUndefined) then js_to_string (JUndefined) = Some ''Document n1'' else ''Document n1'' = ''Document '' @ ''n1''"
    by code_simp
  have el2: "''Document n1'' @ '' (ID: '' @ ''n1'' @ '')'' = ''Document n1 (ID: n1)''"
    by code_simp
  have l2: "document_line no_title = Some ''Document n1 (ID: n1)''"
    using one2 [THEN conjunct2, THEN conjunct2, THEN spec, THEN mp, OF c2] unfolding el2 .
  have q2: "doc_title ([invoice, untitled, no_title, empty_title] ! 2) = Some (JUndefined) \<and> doc_id ([invoice, untitled, no_title, empty_title] ! 2) = Some ''n1'' \<and>
            four_resources ! 2 =
              \<lparr>res_uri = uri_prefix @ ''n1'', res_mimeType = ''application/pdf'',
                res_name = (if js_truthy (JUndefined) then (JUndefined) else JStr (''Document '' @ ''n1''))\<rparr>"
    by code_simp
  have p2: "\<exists>title s. doc_title ([invoice, untitled, no_title, empty_title] ! 2) = Some title \<and> doc_id ([invoice, untitled, no_title, empty_title] ! 2) = Some s \<and>
            four_resources ! 2 =
              \<lparr>res_uri = uri_prefix @ s, res_mimeType = ''application/pdf'',
                res_name = (if js_truthy title then title else JStr (''Document '' @ s))\<rparr>"
    by (intro exI) (rule q2)
  have a3: "empty_title = JObj [(''id'', JNum ''18446744073709552000''), (''attributes'', JObj [(''title'', JStr [])])] \<and> map_of [(''id'', JNum ''18446744073709552000''), (''attributes'', JObj [(''title'', JStr [])])] ''attributes'' = Some (JObj [(''title'', JStr [])])"
    by code_simp
  note rd3 = display_name_fallback [where be = "listing_backend (JObj [])" and cursor = None and w = world0 and doc = empty_title,
      THEN conjunct2, THEN conjunct2, THEN conjunct2, THEN conjunct1,
      THEN spec, THEN spec, THEN mp, OF a3]
  have ev3: "(case map_of [(''title'', JStr [])] ''title'' of None \<Rightarrow> JUndefined | Some t \<Rightarrow> t) = JStr []"
    by code_simp
  have t3: "doc_title empty_title = Some (JStr [])"
    using rd3 [THEN conjunct1] unfolding ev3 .
  have i3: "map_of [(''id'', JNum ''18446744073709552000''), (''attributes'', JObj [(''title'', JStr [])])] ''id'' = Some (JNum ''18446744073709552000'')"
    by code_simp
  have s3: "doc_id empty_title = Some ''18446744073709552000''"
    by (rule rd3 [THEN conjunct2, THEN conjunct2, THEN spec, THEN mp, OF i3])
  note one3 = display_name_fallback [where be = "listing_backend (JObj [])" and cursor = None and w = world0 and doc = empty_title,
      THEN conjunct2, THEN conjunct2, THEN conjunct2, THEN conjunct2, THEN conjunct1,
      THEN spec, THEN spec, THEN mp, OF conjI [OF t3 s3]]
  have er3: "\<lparr>res_uri = uri_prefix @ ''18446744073709552000'', res_mimeType = ''application/pdf'',
                res_name = (if js_truthy (JStr []) then (JStr []) else JStr (''Document '' @ ''18446744073709552000''))\<rparr> =
      \<lparr>res_uri = ''nutrient-document-engine:///18446744073709552000'', res_mimeType = ''application/pdf'', res_name = JStr ''Document 18446744073709552000''\<rparr>"
    by code_simp
  have n3: "document_resource empty_title =
      Some \<lparr>res_uri = ''nutrient-document-engine:///18446744073709552000'', res_mimeType = ''application/pdf'', res_name = JStr ''Document 18446744073709552000''\<rparr>"
    using one3 [THEN conjunct2, THEN conjunct1] unfolding er3 .
  have c3: "if js_truthy (JStr []) then js_to_string (JStr []) = Some ''Document 18446744073709552000'' else ''Document 18446744073709552000'' = ''Document '' @ ''18446744073709552000''"
    by code_simp
  have el3: "''Document 18446744073709552000'' @ '' (ID: '' @ ''18446744073709552000'' @ '')'' = ''Document 18446744073709552000 (ID: 18446744073709552000)''"
    by code_simp
  have l3: "document_line empty_title = Some ''Document 18446744073709552000 (ID: 18446744073709552000)''"
    using one3 [THEN conjunct2, THEN conjunct2, THEN spec, THEN mp, OF c3] unfolding el3 .
  have q3: "doc_title ([invoice, untitled, no_title, empty_title] ! 3) = Some (JStr []) \<and> doc_id ([invoice, untitled, no_title, empty_title] ! 3) = Some ''18446744073709552000'' \<and>
            four_resources ! 3 =
              \<lparr>res_uri = uri_prefix @ ''18446744073709552000'', res_mimeType = ''application/pdf'',
                res_name = (if js_truthy (JStr []) then (JStr []) else JStr (''Document '' @ ''18446744073709552000''))\<rparr>"
    by code_simp
  have p3: "\<exists>title s. doc_title ([invoice, untitled, no_title, empty_title] ! 3) = Some title \<and> doc_id ([invoice, untitled, no_title, empty_title] ! 3) = Some s \<and>
            four_resources ! 3 =
              \<lparr>res_uri = uri_prefix @ s, res_mimeType = ''application/pdf'',
                res_name = (if js_truthy title then title else JStr (''Document '' @ s))\<rparr>"
    by (intro exI) (rule q3)
  have f: "\<forall>i<length [invoice, untitled, no_title, empty_title].
         \<exists>title s. doc_title ([invoice, untitled, no_title, empty_title] ! i) = Some title \<and> doc_id ([invoice, untitled, no_title, empty_title] ! i) = Some s \<and>
            four_resources ! i =
              \<lparr>res_uri = uri_prefix @ s, res_mimeType = ''application/pdf'',
                res_name = (if js_truthy title then title else JStr (''Document '' @ s))\<rparr>"
  proof (intro allI impI)
    fix i :: nat assume "i < length [invoice, untitled, no_title, empty_title]"
    then have "i = 0 \<or> i = 1 \<or> i = 2 \<or> i = 3" by auto
    with p0 p1 p2 p3
    show "\<exists>title s. doc_title ([invoice, untitled, no_title, empty_title] ! i) = Some title \<and> doc_id ([invoice, untitled, no_title, empty_title] ! i) = Some s \<and>
            four_resources ! i =
              \<lparr>res_uri = uri_prefix @ s, res_mimeType = ''application/pdf'',
                res_name = (if js_truthy title then title else JStr (''Document '' @ s))\<rparr>"
      by blast
  qed
  have b: "fst ((listing_backend (JObj [])) (be_state world0) (Get ''/api/documents'' (list_params None))) = Some (JObj [(''data'', JArr [invoice, untitled, no_title, empty_title]),
              (''meta'', JObj [(''pagination'', JObj [])])])"
    by code_simp
  have d: "js_get (JObj [(''data'', JArr [invoice, untitled, no_title, empty_title]),
              (''meta'', JObj [(''pagination'', JObj [])])]) ''data'' = Some (JArr [invoice, untitled, no_title, empty_title])"
    by code_simp
  have m: "js_get (JObj [(''data'', JArr [invoice, untitled, no_title, empty_title]),
              (''meta'', JObj [(''pagination'', JObj [])])]) ''meta'' = Some (JObj [(''pagination'', JObj [])]) \<and>
      js_get (JObj [(''pagination'', JObj [])]) ''pagination'' = Some (JObj []) \<and>
      js_get (JObj []) ''next_page'' = Some JUndefined"
    by code_simp
  then have m': "\<exists>meta pg np. js_get (JObj [(''data'', JArr [invoice, untitled, no_title, empty_title]),
              (''meta'', JObj [(''pagination'', JObj [])])]) ''meta'' = Some meta \<and> js_get meta ''pagination'' = Some pg \<and>
         js_get pg ''next_page'' = Some np"
    by (intro exI)
  have len: "length four_resources = length [invoice, untitled, no_title, empty_title]"
    by (simp add: four_resources_def)
  from b d m' len f have h: "fst ((listing_backend (JObj [])) (be_state world0) (Get ''/api/documents'' (list_params None))) = Some (JObj [(''data'', JArr [invoice, untitled, no_title, empty_title]),
              (''meta'', JObj [(''pagination'', JObj [])])]) \<and>
      js_get (JObj [(''data'', JArr [invoice, untitled, no_title, empty_title]),
              (''meta'', JObj [(''pagination'', JObj [])])]) ''data'' = Some (JArr [invoice, untitled, no_title, empty_title]) \<and>
      (\<exists>meta pg np. js_get (JObj [(''data'', JArr [invoice, untitled, no_title, empty_title]),
              (''meta'', JObj [(''pagination'', JObj [])])]) ''meta'' = Some meta \<and> js_get meta ''pagination'' = Some pg \<and>
         js_get pg ''next_page'' = Some np) \<and>
      length four_resources = length [invoice, untitled, no_title, empty_title] \<and>
      (\<forall>i<length [invoice, untitled, no_title, empty_title].
         \<exists>title s. doc_title ([invoice, untitled, no_title, empty_title] ! i) = Some title \<and> doc_id ([invoice, untitled, no_title, empty_title] ! i) = Some s \<and>
            four_resources ! i =
              \<lparr>res_uri = uri_prefix @ s, res_mimeType = ''application/pdf'',
                res_name = (if js_truthy title then title else JStr (''Document '' @ s))\<rparr>)"
    by (intro conjI)
  have r: "(\<exists>r. fst (list_resources (listing_backend (JObj [])) None world0) = Inr r \<and> resources r = four_resources)"
    by (rule display_name_fallback [where be = "listing_backend (JObj [])" and cursor = None and w = world0 and doc = invoice,
      THEN conjunct2, THEN conjunct2, THEN conjunct2, THEN conjunct2, THEN conjunct2,
      THEN spec, THEN spec, THEN spec, THEN mp, OF h])
  have x: "fst (list_resources (listing_backend (JObj [])) None world0) =
      Inr \<lparr>resources = four_resources, nextCursor = JUndefined\<rparr>"
    by code_simp
  have y: "map res_name four_resources =
      [JStr ''Invoice'', JStr ''Document d7'', JStr ''Document n1'',
       JStr ''Document 18446744073709552000'']"
    by (simp add: four_resources_def)
  from oa on od ob oc og of t0 s0 n0 l0 t1 s1 n1 l1 t2 s2 n2 l2 t3 s3 n3 l3 b d m' len p0 p1 p2 p3 r x y
  show ?thesis by (intro conjI)
qed

end
